theory Spec2Isabelle
  imports Main "HOL-Library.Word" "HOL-Library.Sublist"
begin

section \<open>The platform seen by \<open>suid-wrapper.c\<close>\<close>

text \<open>
  \<open>suid-wrapper.c\<close> is one function, \<open>main\<close>, that talks to three platform services:
  the identity database (\<open>getpwnam\<close>), libcap-ng (\<open>capng_clear\<close>, \<open>capng_updatev\<close>,
  \<open>capng_change_id\<close>) and the program loader (\<open>execvpe\<close>). None of them is part of the
  repository, so each is a parameter of the model: a \<open>platform\<close> gives the answer of every
  service, and the model records every call, with its arguments, in a trace.

  The enumerations below are the ones of \<^verbatim>\<open>cap-ng.h\<close> and \<^verbatim>\<open>linux/capability.h\<close>.
  They are kept symbolic: the program only ever names their members, and a bitwise-or of
  distinct flag bits is the set of the flags.
\<close>

type_synonym uid_t = "32 word"
type_synonym gid_t = "32 word"

text \<open>The two fields of \<open>struct passwd\<close> that \<open>main\<close> reads.\<close>

record passwd =
  pw_uid :: uid_t
  pw_gid :: gid_t

datatype capng_act_t = CAPNG_DROP | CAPNG_ADD

datatype capng_type_t =
  CAPNG_EFFECTIVE | CAPNG_PERMITTED | CAPNG_INHERITABLE | CAPNG_BOUNDING_SET | CAPNG_AMBIENT

datatype capng_select_t =
  CAPNG_SELECT_CAPS | CAPNG_SELECT_BOUNDS | CAPNG_SELECT_BOTH | CAPNG_SELECT_AMBIENT
  | CAPNG_SELECT_ALL

datatype capng_flags_t =
  CAPNG_NO_FLAG | CAPNG_DROP_SUPP_GRP | CAPNG_CLEAR_BOUNDING | CAPNG_INIT_SUPP_GRP
  | CAPNG_CLEAR_AMBIENT

datatype capability =
  CAP_CHOWN | CAP_DAC_OVERRIDE | CAP_DAC_READ_SEARCH | CAP_FOWNER | CAP_FSETID | CAP_KILL
  | CAP_SETGID | CAP_SETUID | CAP_SETPCAP | CAP_LINUX_IMMUTABLE | CAP_NET_BIND_SERVICE
  | CAP_NET_BROADCAST | CAP_NET_ADMIN | CAP_NET_RAW | CAP_IPC_LOCK | CAP_IPC_OWNER
  | CAP_SYS_MODULE | CAP_SYS_RAWIO | CAP_SYS_CHROOT | CAP_SYS_PTRACE | CAP_SYS_PACCT
  | CAP_SYS_ADMIN | CAP_SYS_BOOT | CAP_SYS_NICE | CAP_SYS_RESOURCE | CAP_SYS_TIME
  | CAP_SYS_TTY_CONFIG | CAP_MKNOD | CAP_LEASE | CAP_AUDIT_WRITE | CAP_AUDIT_CONTROL
  | CAP_SETFCAP | CAP_MAC_OVERRIDE | CAP_MAC_ADMIN | CAP_SYSLOG | CAP_WAKE_ALARM
  | CAP_BLOCK_SUSPEND | CAP_AUDIT_READ | CAP_PERFMON | CAP_BPF | CAP_CHECKPOINT_RESTORE

text \<open>
  What a library call does to \<open>errno\<close>: \<open>None\<close> leaves it as it was, \<open>Some e\<close> stores \<open>e\<close>.
\<close>

type_synonym errno_effect = "int option"

text \<open>
  \<open>execvpe\<close> either replaces the process image, and then never returns, or returns a
  value and an effect on \<open>errno\<close>.
\<close>

datatype exec_result = ExecReplaced | ExecReturned int errno_effect

record platform =
  getpwnam :: "string \<Rightarrow> passwd option \<times> errno_effect"
  capng_clear :: "capng_select_t \<Rightarrow> errno_effect"
  capng_updatev ::
    "capng_act_t \<Rightarrow> capng_type_t set \<Rightarrow> capability list \<Rightarrow> int \<times> errno_effect"
  capng_change_id :: "uid_t \<Rightarrow> gid_t \<Rightarrow> capng_flags_t \<Rightarrow> int \<times> errno_effect"
  execvpe :: "string \<Rightarrow> string list \<Rightarrow> string list \<Rightarrow> exec_result"
  strerror :: "int \<Rightarrow> string"

section \<open>The process state and its trace\<close>

datatype event =
    Getpwnam string
  | CapngClear capng_select_t
  | CapngUpdatev capng_act_t "capng_type_t set" "capability list"
  | CapngChangeId uid_t gid_t capng_flags_t
  | Execvpe string "string list" "string list"
  | Stderr string

record proc =
  errno :: int
  trace :: "event list"

datatype outcome = Exited int | Replaced

definition EXIT_SUCCESS :: int where
  "EXIT_SUCCESS = 0"

definition EXIT_FAILURE :: int where
  "EXIT_FAILURE = 1"

definition errno_after :: "errno_effect \<Rightarrow> int \<Rightarrow> int" where
  "errno_after eff e = (case eff of None \<Rightarrow> e | Some e' \<Rightarrow> e')"

definition set_errno :: "errno_effect \<Rightarrow> proc \<Rightarrow> proc" where
  "set_errno eff s = s\<lparr>errno := errno_after eff (errno s)\<rparr>"

definition emit :: "event \<Rightarrow> proc \<Rightarrow> proc" where
  "emit ev s = s\<lparr>trace := trace s @ [ev]\<rparr>"

subsection \<open>Formatted output\<close>

definition newline :: string where
  "newline = [CHR 0x0A]"

fun dec_digits :: "nat \<Rightarrow> string" where
  "dec_digits n =
     (if n < 10 then [''0123456789'' ! n]
      else dec_digits (n div 10) @ [''0123456789'' ! (n mod 10)])"

declare dec_digits.simps [simp del]

text \<open>The conversion \<open>%d\<close> of \<open>fprintf\<close>.\<close>

definition fmt_d :: "int \<Rightarrow> string" where
  "fmt_d i = (if i < 0 then CHR ''-'' # dec_digits (nat (- i)) else dec_digits (nat i))"

text \<open>
  The conversion \<open>%s\<close> of \<open>argv[0]\<close>. With \<open>argc = 0\<close> the pointer is \<open>NULL\<close>, which
  glibc prints as \<open>(null)\<close>.
\<close>

definition argv0 :: "string list \<Rightarrow> string" where
  "argv0 argv = (case argv of [] \<Rightarrow> ''(null)'' | a # _ \<Rightarrow> a)"

definition fprintf_stderr :: "string \<Rightarrow> proc \<Rightarrow> proc" where
  "fprintf_stderr text s = emit (Stderr text) s"

text \<open>\<open>perror(tag)\<close> writes the tag and the message of the current \<open>errno\<close>.\<close>

definition perror_text :: "platform \<Rightarrow> string \<Rightarrow> int \<Rightarrow> string" where
  "perror_text P tag e = tag @ '': '' @ strerror P e @ newline"

definition perror :: "platform \<Rightarrow> string \<Rightarrow> proc \<Rightarrow> proc" where
  "perror P tag s = emit (Stderr (perror_text P tag (errno s))) s"

definition usage_text :: "string \<Rightarrow> string" where
  "usage_text a = ''usage: '' @ a @ '' user cmd argv [argv]'' @ newline"

definition not_found_text :: "string \<Rightarrow> string" where
  "not_found_text name = ''getpwnam: can not find user '' @ name @ newline"

definition root_text :: string where
  "root_text = ''can not run as root (uid = 0)'' @ newline"

definition updatev_text :: "int \<Rightarrow> string" where
  "updatev_text ret = ''capng_updatev() returns '' @ fmt_d ret @ newline"

definition change_id_text :: "int \<Rightarrow> string" where
  "change_id_text ret = ''capng_change_id() returns '' @ fmt_d ret @ newline"

subsection \<open>The calls\<close>

definition call_getpwnam :: "platform \<Rightarrow> string \<Rightarrow> proc \<Rightarrow> passwd option \<times> proc" where
  "call_getpwnam P name s =
     (case getpwnam P name of (pwd, eff) \<Rightarrow> (pwd, set_errno eff (emit (Getpwnam name) s)))"

definition call_capng_clear :: "platform \<Rightarrow> capng_select_t \<Rightarrow> proc \<Rightarrow> proc" where
  "call_capng_clear P sel s = set_errno (capng_clear P sel) (emit (CapngClear sel) s)"

definition call_capng_updatev ::
  "platform \<Rightarrow> capng_act_t \<Rightarrow> capng_type_t set \<Rightarrow> capability list \<Rightarrow> proc \<Rightarrow> int \<times> proc"
where
  "call_capng_updatev P act types caps s =
     (case capng_updatev P act types caps of
        (ret, eff) \<Rightarrow> (ret, set_errno eff (emit (CapngUpdatev act types caps) s)))"

definition call_capng_change_id ::
  "platform \<Rightarrow> uid_t \<Rightarrow> gid_t \<Rightarrow> capng_flags_t \<Rightarrow> proc \<Rightarrow> int \<times> proc"
where
  "call_capng_change_id P uid gid flag s =
     (case capng_change_id P uid gid flag of
        (ret, eff) \<Rightarrow> (ret, set_errno eff (emit (CapngChangeId uid gid flag) s)))"

text \<open>
  \<open>call_execvpe\<close> gives \<open>None\<close> when the image was replaced, and the returned value
  otherwise.
\<close>

definition call_execvpe ::
  "platform \<Rightarrow> string \<Rightarrow> string list \<Rightarrow> string list \<Rightarrow> proc \<Rightarrow> int option \<times> proc"
where
  "call_execvpe P file args envp s =
     (case execvpe P file args envp of
        ExecReplaced \<Rightarrow> (None, emit (Execvpe file args envp) s)
      | ExecReturned ret eff \<Rightarrow> (Some ret, set_errno eff (emit (Execvpe file args envp) s)))"

section \<open>\<open>main\<close>\<close>

text \<open>
  \<open>main P e0 argv envp\<close> runs the wrapper on the platform \<open>P\<close>, with \<open>errno\<close> holding
  \<open>e0\<close> at entry. \<open>argc\<close> is the length of \<open>argv\<close>. The result is how the process
  ended and its final state, trace included.
\<close>

definition main :: "platform \<Rightarrow> int \<Rightarrow> string list \<Rightarrow> string list \<Rightarrow> outcome \<times> proc" where
  "main P e0 argv envp =
     (let s0 = \<lparr>errno = e0, trace = []\<rparr>; argc = int (length argv) in
      if argc \<le> 2 then
        (Exited EXIT_FAILURE, fprintf_stderr (usage_text (argv0 argv)) s0)
      else
        let s1 = s0\<lparr>errno := 0\<rparr> in
        case call_getpwnam P (argv ! 1) s1 of (pwd, s2) \<Rightarrow>
        (case pwd of
           None \<Rightarrow>
             (Exited EXIT_FAILURE,
              if errno s2 \<noteq> 0 then perror P ''getpanam'' s2
              else fprintf_stderr (not_found_text (argv ! 1)) s2)
         | Some pw \<Rightarrow>
             let uid = pw_uid pw; gid = pw_gid pw in
             if uid = 0 then
               (Exited EXIT_FAILURE, fprintf_stderr root_text s2)
             else
               let s3 = call_capng_clear P CAPNG_SELECT_BOTH s2 in
               case call_capng_updatev P CAPNG_ADD
                      {CAPNG_EFFECTIVE, CAPNG_PERMITTED, CAPNG_INHERITABLE, CAPNG_AMBIENT}
                      [CAP_SETUID, CAP_SETGID] s3 of (ret, s4) \<Rightarrow>
               if ret < 0 then
                 (Exited EXIT_FAILURE, fprintf_stderr (updatev_text ret) s4)
               else
                 case call_capng_change_id P uid gid CAPNG_INIT_SUPP_GRP s4 of (ret, s5) \<Rightarrow>
                 if ret < 0 then
                   (Exited EXIT_FAILURE, fprintf_stderr (change_id_text ret) s5)
                 else
                   let s6 = s5\<lparr>errno := 0\<rparr> in
                   case call_execvpe P (argv ! 2) (drop 2 argv) envp s6 of (r, s7) \<Rightarrow>
                   (case r of
                      None \<Rightarrow> (Replaced, s7)
                    | Some v \<Rightarrow>
                        if v < 0 then (Exited EXIT_FAILURE, perror P ''execvpe'' s7)
                        else (Exited EXIT_SUCCESS, s7))))"

section \<open>Observations on a run\<close>

abbreviation outcome_of :: "outcome \<times> proc \<Rightarrow> outcome" where
  "outcome_of r \<equiv> fst r"

abbreviation trace_of :: "outcome \<times> proc \<Rightarrow> event list" where
  "trace_of r \<equiv> trace (snd r)"

abbreviation grant_types :: "capng_type_t set" where
  "grant_types \<equiv> {CAPNG_EFFECTIVE, CAPNG_PERMITTED, CAPNG_INHERITABLE, CAPNG_AMBIENT}"

abbreviation grant_caps :: "capability list" where
  "grant_caps \<equiv> [CAP_SETUID, CAP_SETGID]"

text \<open>The number a string of decimal digits denotes.\<close>

abbreviation decimal_value :: "string \<Rightarrow> nat" where
  "decimal_value ds \<equiv> foldl (\<lambda>a c. 10 * a + (of_char c - 48)) 0 ds"

text \<open>The kinds of events a claim can ask about.\<close>

fun is_lookup :: "event \<Rightarrow> bool" where
  "is_lookup (Getpwnam _) = True"
| "is_lookup _ = False"

fun is_cap_mutation :: "event \<Rightarrow> bool" where
  "is_cap_mutation (CapngClear _) = True"
| "is_cap_mutation (CapngUpdatev _ _ _) = True"
| "is_cap_mutation _ = False"

fun is_id_switch :: "event \<Rightarrow> bool" where
  "is_id_switch (CapngChangeId _ _ _) = True"
| "is_id_switch _ = False"

fun is_exec :: "event \<Rightarrow> bool" where
  "is_exec (Execvpe _ _ _) = True"
| "is_exec _ = False"

fun is_stderr :: "event \<Rightarrow> bool" where
  "is_stderr (Stderr _) = True"
| "is_stderr _ = False"

text \<open>The platform calls of a run, by kind, in the order they were made.\<close>

datatype step = Lookup | CapClear | CapGrant | IdSwitch | Exec

fun step_of :: "event \<Rightarrow> step option" where
  "step_of (Getpwnam _) = Some Lookup"
| "step_of (CapngClear _) = Some CapClear"
| "step_of (CapngUpdatev _ _ _) = Some CapGrant"
| "step_of (CapngChangeId _ _ _) = Some IdSwitch"
| "step_of (Execvpe _ _ _) = Some Exec"
| "step_of (Stderr _) = None"

definition steps_of :: "outcome \<times> proc \<Rightarrow> step list" where
  "steps_of r = List.map_filter step_of (trace_of r)"

text \<open>
  How far an invocation gets, read off the platform's answers. The names are the states
  of the specification's state machine: \<open>Validated\<close>, \<open>IdentityResolved\<close>,
  \<open>RootChecked\<close>, \<open>CapabilitiesRestricted\<close>, \<open>IdentitySwitched\<close>.
\<close>

definition validated :: "string list \<Rightarrow> bool" where
  "validated argv \<longleftrightarrow> 3 \<le> length argv"

definition resolved :: "platform \<Rightarrow> string list \<Rightarrow> passwd \<Rightarrow> bool" where
  "resolved P argv pw \<longleftrightarrow> validated argv \<and> fst (getpwnam P (argv ! 1)) = Some pw"

definition root_checked :: "platform \<Rightarrow> string list \<Rightarrow> passwd \<Rightarrow> bool" where
  "root_checked P argv pw \<longleftrightarrow> resolved P argv pw \<and> pw_uid pw \<noteq> 0"

definition grant_ret :: "platform \<Rightarrow> int" where
  "grant_ret P = fst (capng_updatev P CAPNG_ADD grant_types grant_caps)"

definition restricted :: "platform \<Rightarrow> string list \<Rightarrow> passwd \<Rightarrow> bool" where
  "restricted P argv pw \<longleftrightarrow> root_checked P argv pw \<and> 0 \<le> grant_ret P"

definition switch_ret :: "platform \<Rightarrow> passwd \<Rightarrow> int" where
  "switch_ret P pw = fst (capng_change_id P (pw_uid pw) (pw_gid pw) CAPNG_INIT_SUPP_GRP)"

definition switched :: "platform \<Rightarrow> string list \<Rightarrow> passwd \<Rightarrow> bool" where
  "switched P argv pw \<longleftrightarrow> restricted P argv pw \<and> 0 \<le> switch_ret P pw"

definition exec_answer :: "platform \<Rightarrow> string list \<Rightarrow> string list \<Rightarrow> exec_result" where
  "exec_answer P argv envp = execvpe P (argv ! 2) (drop 2 argv) envp"

text \<open>The errno left by the lookup, which runs with \<open>errno = 0\<close>.\<close>

definition lookup_errno :: "platform \<Rightarrow> string list \<Rightarrow> int" where
  "lookup_errno P argv = errno_after (snd (getpwnam P (argv ! 1))) 0"

section \<open>The scenarios of the specification\<close>

text \<open>
  A platform for the scenarios of the specification: \<open>alice\<close> is uid 1000 and gid 1000,
  \<open>root\<close> is uid 0, \<open>ghost-user\<close> does not exist, \<open>/bin/echo\<close> can be executed and
  \<open>/nonexistent/binary\<close> cannot (\<open>ENOENT\<close>, 2). Two more entries: \<open>toor\<close>, a second
  name of uid 0, and \<open>operator\<close>, uid 11 in the group 0.
\<close>

definition scenario_passwd :: "string \<Rightarrow> passwd option \<times> errno_effect" where
  "scenario_passwd name =
     (if name = ''alice'' then (Some \<lparr>pw_uid = 1000, pw_gid = 1000\<rparr>, None)
      else if name = ''root'' then (Some \<lparr>pw_uid = 0, pw_gid = 0\<rparr>, None)
      else if name = ''toor'' then (Some \<lparr>pw_uid = 0, pw_gid = 0\<rparr>, None)
      else if name = ''operator'' then (Some \<lparr>pw_uid = 11, pw_gid = 0\<rparr>, None)
      else (None, None))"

definition scenario_strerror :: "int \<Rightarrow> string" where
  "scenario_strerror e =
     (if e = 0 then ''Success''
      else if e = 2 then ''No such file or directory''
      else if e = 5 then ''Input/output error''
      else ''Unknown error'')"

definition scenario_platform :: platform where
  "scenario_platform =
     \<lparr>getpwnam = scenario_passwd,
      capng_clear = (\<lambda>_. None),
      capng_updatev = (\<lambda>_ _ _. (0, None)),
      capng_change_id = (\<lambda>_ _ _. (0, None)),
      execvpe = (\<lambda>file _ _. if file = ''/bin/echo'' then ExecReplaced
                             else ExecReturned (- 1) (Some 2)),
      strerror = scenario_strerror\<rparr>"

text \<open>The invocations of the scenarios, and two platforms whose libcap-ng calls fail.\<close>

definition alice :: passwd where
  "alice = \<lparr>pw_uid = 1000, pw_gid = 1000\<rparr>"

definition argv_short :: "string list" where
  "argv_short = [''suid-wrapper'', ''alice'']"

definition argv_echo :: "string list" where
  "argv_echo = [''suid-wrapper'', ''alice'', ''/bin/echo'', ''hello'']"

definition argv_missing :: "string list" where
  "argv_missing = [''suid-wrapper'', ''alice'', ''/nonexistent/binary'']"

definition argv_root :: "string list" where
  "argv_root = [''suid-wrapper'', ''root'', ''/bin/echo'', ''hi'']"

definition argv_ghost :: "string list" where
  "argv_ghost = [''suid-wrapper'', ''ghost-user'', ''/bin/true'']"

definition grant_fails :: platform where
  "grant_fails = scenario_platform\<lparr>capng_updatev := \<lambda>_ _ _. (- 1, Some 22)\<rparr>"

definition switch_fails :: platform where
  "switch_fails = scenario_platform\<lparr>capng_change_id := \<lambda>_ _ _. (- 7, Some 1)\<rparr>"

text \<open>
  A platform on which \<open>execvpe\<close> returns 0. No exec of the C library does, and the
  platform is here only to reach the last line of \<open>main\<close>.
\<close>

definition exec_returns_zero :: platform where
  "exec_returns_zero = scenario_platform\<lparr>execvpe := \<lambda>_ _ _. ExecReturned 0 None\<rparr>"

text \<open>
  An identity database with an entry of user id \<open>0xFFFFFFFF\<close>, the value \<open>(uid_t) -1\<close>.
\<close>

definition minus_one_entry :: passwd where
  "minus_one_entry = \<lparr>pw_uid = 0xFFFFFFFF, pw_gid = 1000\<rparr>"

definition minus_one_platform :: platform where
  "minus_one_platform =
     scenario_platform\<lparr>getpwnam := \<lambda>name.
       if name = ''nfsnobody'' then (Some minus_one_entry, None) else scenario_passwd name\<rparr>"

definition argv_minus_one :: "string list" where
  "argv_minus_one = [''suid-wrapper'', ''nfsnobody'', ''/bin/echo'', ''hello'']"

section \<open>Platforms that differ in what they leave in \<open>errno\<close>\<close>

text \<open>
  \<open>with_errno_effects c u w P\<close> answers as \<open>P\<close> does, but its three libcap-ng calls
  leave in \<open>errno\<close> what \<open>c\<close>, \<open>u\<close> and \<open>w\<close> say.
\<close>

definition with_errno_effects ::
  "(capng_select_t \<Rightarrow> errno_effect) \<Rightarrow>
   (capng_act_t \<Rightarrow> capng_type_t set \<Rightarrow> capability list \<Rightarrow> errno_effect) \<Rightarrow>
   (uid_t \<Rightarrow> gid_t \<Rightarrow> capng_flags_t \<Rightarrow> errno_effect) \<Rightarrow> platform \<Rightarrow> platform"
where
  "with_errno_effects c u w P =
     P\<lparr>capng_clear := c,
       capng_updatev := (\<lambda>act types caps. (fst (capng_updatev P act types caps), u act types caps)),
       capng_change_id := (\<lambda>uid gid flag. (fst (capng_change_id P uid gid flag), w uid gid flag))\<rparr>"

section \<open>The paths through \<open>main\<close>\<close>

lemmas call_defs =
  call_getpwnam_def call_capng_clear_def call_capng_updatev_def call_capng_change_id_def
  call_execvpe_def set_errno_def emit_def fprintf_stderr_def perror_def

lemmas reach_defs =
  validated_def resolved_def root_checked_def restricted_def switched_def grant_ret_def
  switch_ret_def exec_answer_def lookup_errno_def

lemma main_usage:
  assumes "\<not> validated argv"
  shows "main P e0 argv envp =
    (Exited EXIT_FAILURE, \<lparr>errno = e0, trace = [Stderr (usage_text (argv0 argv))]\<rparr>)"
  using assms by (simp add: main_def call_defs reach_defs Let_def)

lemma main_lookup_failed:
  assumes "validated argv" and "fst (getpwnam P (argv ! 1)) = None"
  shows "main P e0 argv envp =
    (Exited EXIT_FAILURE,
     \<lparr>errno = lookup_errno P argv,
      trace = [Getpwnam (argv ! 1),
               Stderr (if lookup_errno P argv \<noteq> 0
                       then perror_text P ''getpanam'' (lookup_errno P argv)
                       else not_found_text (argv ! 1))]\<rparr>)"
  using assms by (simp add: main_def call_defs reach_defs split_beta Let_def)

lemma main_root:
  assumes "resolved P argv pw" and "pw_uid pw = 0"
  shows "main P e0 argv envp =
    (Exited EXIT_FAILURE,
     \<lparr>errno = lookup_errno P argv, trace = [Getpwnam (argv ! 1), Stderr root_text]\<rparr>)"
  using assms by (simp add: main_def call_defs reach_defs split_beta Let_def)

lemma main_grant_failed:
  assumes "root_checked P argv pw" and "grant_ret P < 0"
  shows "trace_of (main P e0 argv envp) =
      [Getpwnam (argv ! 1), CapngClear CAPNG_SELECT_BOTH,
       CapngUpdatev CAPNG_ADD grant_types grant_caps, Stderr (updatev_text (grant_ret P))]"
    and "outcome_of (main P e0 argv envp) = Exited EXIT_FAILURE"
  using assms by (simp_all add: main_def call_defs reach_defs split_beta Let_def)

lemma main_switch_failed:
  assumes "restricted P argv pw" and "switch_ret P pw < 0"
  shows "trace_of (main P e0 argv envp) =
      [Getpwnam (argv ! 1), CapngClear CAPNG_SELECT_BOTH,
       CapngUpdatev CAPNG_ADD grant_types grant_caps,
       CapngChangeId (pw_uid pw) (pw_gid pw) CAPNG_INIT_SUPP_GRP,
       Stderr (change_id_text (switch_ret P pw))]"
    and "outcome_of (main P e0 argv envp) = Exited EXIT_FAILURE"
  using assms by (simp_all add: main_def call_defs reach_defs split_beta Let_def)

lemma main_exec_failed:
  assumes "switched P argv pw" and "exec_answer P argv envp = ExecReturned v eff" and "v < 0"
  shows "main P e0 argv envp =
    (Exited EXIT_FAILURE,
     \<lparr>errno = errno_after eff 0,
      trace = [Getpwnam (argv ! 1), CapngClear CAPNG_SELECT_BOTH,
               CapngUpdatev CAPNG_ADD grant_types grant_caps,
               CapngChangeId (pw_uid pw) (pw_gid pw) CAPNG_INIT_SUPP_GRP,
               Execvpe (argv ! 2) (drop 2 argv) envp,
               Stderr (perror_text P ''execvpe'' (errno_after eff 0))]\<rparr>)"
  using assms by (simp add: main_def call_defs reach_defs split_beta Let_def)

lemma main_exec_returned:
  assumes "switched P argv pw" and "exec_answer P argv envp = ExecReturned v eff" and "0 \<le> v"
  shows "main P e0 argv envp =
    (Exited EXIT_SUCCESS,
     \<lparr>errno = errno_after eff 0,
      trace = [Getpwnam (argv ! 1), CapngClear CAPNG_SELECT_BOTH,
               CapngUpdatev CAPNG_ADD grant_types grant_caps,
               CapngChangeId (pw_uid pw) (pw_gid pw) CAPNG_INIT_SUPP_GRP,
               Execvpe (argv ! 2) (drop 2 argv) envp]\<rparr>)"
  using assms by (simp add: main_def call_defs reach_defs split_beta Let_def)

lemma main_replaced:
  assumes "switched P argv pw" and "exec_answer P argv envp = ExecReplaced"
  shows "main P e0 argv envp =
    (Replaced,
     \<lparr>errno = 0,
      trace = [Getpwnam (argv ! 1), CapngClear CAPNG_SELECT_BOTH,
               CapngUpdatev CAPNG_ADD grant_types grant_caps,
               CapngChangeId (pw_uid pw) (pw_gid pw) CAPNG_INIT_SUPP_GRP,
               Execvpe (argv ! 2) (drop 2 argv) envp]\<rparr>)"
  using assms by (simp add: main_def call_defs reach_defs split_beta Let_def)

text \<open>Every invocation takes exactly one of the eight paths.\<close>

lemma run_cases [case_names usage lookup_failed root grant_failed switch_failed exec_failed
    exec_returned replaced]:
  obtains "\<not> validated argv"
  | "validated argv" and "fst (getpwnam P (argv ! 1)) = None"
  | pw where "resolved P argv pw" and "pw_uid pw = 0"
  | pw where "root_checked P argv pw" and "grant_ret P < 0"
  | pw where "restricted P argv pw" and "switch_ret P pw < 0"
  | pw v eff where "switched P argv pw" and "exec_answer P argv envp = ExecReturned v eff"
      and "v < 0"
  | pw v eff where "switched P argv pw" and "exec_answer P argv envp = ExecReturned v eff"
      and "0 \<le> v"
  | pw where "switched P argv pw" and "exec_answer P argv envp = ExecReplaced"
proof (cases "validated argv")
  case False
  then show ?thesis using that(1) by blast
next
  case val: True
  show ?thesis
  proof (cases "fst (getpwnam P (argv ! 1))")
    case None
    with val show ?thesis using that(2) by blast
  next
    case (Some pw)
    with val have res: "resolved P argv pw" by (simp add: resolved_def)
    show ?thesis
    proof (cases "pw_uid pw = 0")
      case True
      with res show ?thesis using that(3) by blast
    next
      case False
      with res have rc: "root_checked P argv pw" by (simp add: root_checked_def)
      show ?thesis
      proof (cases "grant_ret P < 0")
        case True
        with rc show ?thesis using that(4) by blast
      next
        case False
        with rc have rs: "restricted P argv pw" by (simp add: restricted_def)
        show ?thesis
        proof (cases "switch_ret P pw < 0")
          case True
          with rs show ?thesis using that(5) by blast
        next
          case False
          with rs have sw: "switched P argv pw" by (simp add: switched_def)
          show ?thesis
          proof (cases "exec_answer P argv envp")
            case ExecReplaced
            with sw show ?thesis using that(8) by blast
          next
            case (ExecReturned v eff)
            with sw show ?thesis using that(6) [of pw v eff] that(7) [of pw v eff]
              by (cases "v < 0") auto
          qed
        qed
      qed
    qed
  qed
qed

lemmas text_defs =
  usage_text_def not_found_text_def root_text_def updatev_text_def change_id_text_def
  perror_text_def newline_def argv0_def

lemmas scenario_defs =
  scenario_platform_def scenario_passwd_def scenario_strerror_def alice_def argv_short_def
  argv_echo_def argv_missing_def argv_root_def argv_ghost_def grant_fails_def switch_fails_def
  exec_returns_zero_def minus_one_entry_def minus_one_platform_def argv_minus_one_def

text \<open>Once the arguments are validated the first thing the wrapper does is the lookup.\<close>

lemma validated_trace_head:
  assumes "validated argv"
  shows "trace_of (main P e0 argv envp) \<noteq> [] \<and>
    hd (trace_of (main P e0 argv envp)) = Getpwnam (argv ! 1)"
proof (cases rule: run_cases [where argv = argv and P = P and envp = envp])
  case usage
  with assms show ?thesis by simp
next
  case lookup_failed
  from main_lookup_failed [OF this] show ?thesis by simp
next
  case (root pw)
  from main_root [OF this] show ?thesis by simp
next
  case (grant_failed pw)
  from main_grant_failed(1) [OF this] show ?thesis by simp
next
  case (switch_failed pw)
  from main_switch_failed(1) [OF this] show ?thesis by simp
next
  case (exec_failed pw v eff)
  from main_exec_failed [OF this] show ?thesis by simp
next
  case (exec_returned pw v eff)
  from main_exec_returned [OF this] show ?thesis by simp
next
  case (replaced pw)
  from main_replaced [OF this] show ?thesis by simp
qed

lemma dec_digits_small: "n < 10 \<Longrightarrow> dec_digits n = [''0123456789'' ! n]"
  by (simp add: dec_digits.simps)

lemma same_entry:
  assumes "resolved P argv pw" and "resolved P argv pw'"
  shows "pw' = pw"
  using assms by (simp add: resolved_def)

text \<open>The trace of a run that passed the root guard, up to the grant.\<close>

lemma root_checked_trace:
  assumes "root_checked P argv pw"
  shows "take 3 (trace_of (main P e0 argv envp)) =
      [Getpwnam (argv ! 1), CapngClear CAPNG_SELECT_BOTH,
       CapngUpdatev CAPNG_ADD grant_types grant_caps]"
    and "filter is_cap_mutation (trace_of (main P e0 argv envp)) =
      [CapngClear CAPNG_SELECT_BOTH, CapngUpdatev CAPNG_ADD grant_types grant_caps]"
proof -
  have "take 3 (trace_of (main P e0 argv envp)) =
      [Getpwnam (argv ! 1), CapngClear CAPNG_SELECT_BOTH,
       CapngUpdatev CAPNG_ADD grant_types grant_caps] \<and>
    filter is_cap_mutation (trace_of (main P e0 argv envp)) =
      [CapngClear CAPNG_SELECT_BOTH, CapngUpdatev CAPNG_ADD grant_types grant_caps]"
  proof (cases rule: run_cases [where argv = argv and P = P and envp = envp])
    case usage
    with assms show ?thesis by (simp add: root_checked_def resolved_def)
  next
    case lookup_failed
    with assms show ?thesis by (simp add: root_checked_def resolved_def)
  next
    case (root pw')
    with assms show ?thesis by (auto simp: root_checked_def resolved_def)
  next
    case (grant_failed pw')
    from main_grant_failed(1) [OF this] show ?thesis by simp
  next
    case (switch_failed pw')
    from main_switch_failed(1) [OF this] show ?thesis by simp
  next
    case (exec_failed pw' v eff)
    from main_exec_failed [OF this] show ?thesis by simp
  next
    case (exec_returned pw' v eff)
    from main_exec_returned [OF this] show ?thesis by simp
  next
    case (replaced pw')
    from main_replaced [OF this] show ?thesis by simp
  qed
  then show "take 3 (trace_of (main P e0 argv envp)) =
      [Getpwnam (argv ! 1), CapngClear CAPNG_SELECT_BOTH,
       CapngUpdatev CAPNG_ADD grant_types grant_caps]"
    and "filter is_cap_mutation (trace_of (main P e0 argv envp)) =
      [CapngClear CAPNG_SELECT_BOTH, CapngUpdatev CAPNG_ADD grant_types grant_caps]"
    by simp_all
qed

text \<open>The trace of a run whose grant succeeded, up to the identity switch.\<close>

lemma restricted_trace:
  assumes "restricted P argv pw"
  shows "take 4 (trace_of (main P e0 argv envp)) =
      [Getpwnam (argv ! 1), CapngClear CAPNG_SELECT_BOTH,
       CapngUpdatev CAPNG_ADD grant_types grant_caps,
       CapngChangeId (pw_uid pw) (pw_gid pw) CAPNG_INIT_SUPP_GRP]"
    and "filter is_id_switch (trace_of (main P e0 argv envp)) =
      [CapngChangeId (pw_uid pw) (pw_gid pw) CAPNG_INIT_SUPP_GRP]"
proof -
  from assms have res: "resolved P argv pw" and ok: "0 \<le> grant_ret P"
    by (simp_all add: restricted_def root_checked_def)
  have "take 4 (trace_of (main P e0 argv envp)) =
      [Getpwnam (argv ! 1), CapngClear CAPNG_SELECT_BOTH,
       CapngUpdatev CAPNG_ADD grant_types grant_caps,
       CapngChangeId (pw_uid pw) (pw_gid pw) CAPNG_INIT_SUPP_GRP] \<and>
    filter is_id_switch (trace_of (main P e0 argv envp)) =
      [CapngChangeId (pw_uid pw) (pw_gid pw) CAPNG_INIT_SUPP_GRP]"
  proof (cases rule: run_cases [where argv = argv and P = P and envp = envp])
    case usage
    with res show ?thesis by (simp add: resolved_def)
  next
    case lookup_failed
    with res show ?thesis by (simp add: resolved_def)
  next
    case (root pw')
    with assms show ?thesis by (auto simp: restricted_def root_checked_def resolved_def)
  next
    case (grant_failed pw')
    with ok show ?thesis by simp
  next
    case (switch_failed pw')
    then have "pw' = pw"
      using res by (simp add: restricted_def root_checked_def same_entry)
    with main_switch_failed(1) [OF switch_failed] show ?thesis by simp
  next
    case (exec_failed pw' v eff)
    then have "pw' = pw"
      using res by (simp add: switched_def restricted_def root_checked_def same_entry)
    with main_exec_failed [OF exec_failed] show ?thesis by simp
  next
    case (exec_returned pw' v eff)
    then have "pw' = pw"
      using res by (simp add: switched_def restricted_def root_checked_def same_entry)
    with main_exec_returned [OF exec_returned] show ?thesis by simp
  next
    case (replaced pw')
    then have "pw' = pw"
      using res by (simp add: switched_def restricted_def root_checked_def same_entry)
    with main_replaced [OF replaced] show ?thesis by simp
  qed
  then show "take 4 (trace_of (main P e0 argv envp)) =
      [Getpwnam (argv ! 1), CapngClear CAPNG_SELECT_BOTH,
       CapngUpdatev CAPNG_ADD grant_types grant_caps,
       CapngChangeId (pw_uid pw) (pw_gid pw) CAPNG_INIT_SUPP_GRP]"
    and "filter is_id_switch (trace_of (main P e0 argv envp)) =
      [CapngChangeId (pw_uid pw) (pw_gid pw) CAPNG_INIT_SUPP_GRP]"
    by simp_all
qed

text \<open>The trace of a run whose identity switch succeeded, up to the exec.\<close>

lemma switched_trace:
  assumes "switched P argv pw"
  shows "take 5 (trace_of (main P e0 argv envp)) =
      [Getpwnam (argv ! 1), CapngClear CAPNG_SELECT_BOTH,
       CapngUpdatev CAPNG_ADD grant_types grant_caps,
       CapngChangeId (pw_uid pw) (pw_gid pw) CAPNG_INIT_SUPP_GRP,
       Execvpe (argv ! 2) (drop 2 argv) envp]"
    and "filter is_exec (trace_of (main P e0 argv envp)) =
      [Execvpe (argv ! 2) (drop 2 argv) envp]"
proof -
  have "take 5 (trace_of (main P e0 argv envp)) =
      [Getpwnam (argv ! 1), CapngClear CAPNG_SELECT_BOTH,
       CapngUpdatev CAPNG_ADD grant_types grant_caps,
       CapngChangeId (pw_uid pw) (pw_gid pw) CAPNG_INIT_SUPP_GRP,
       Execvpe (argv ! 2) (drop 2 argv) envp] \<and>
    filter is_exec (trace_of (main P e0 argv envp)) =
      [Execvpe (argv ! 2) (drop 2 argv) envp]"
  proof (cases "exec_answer P argv envp")
    case ExecReplaced
    from main_replaced [OF assms this] show ?thesis by simp
  next
    case (ExecReturned v eff)
    show ?thesis
    proof (cases "v < 0")
      case True
      from main_exec_failed [OF assms ExecReturned this] show ?thesis by simp
    next
      case False
      then have "0 \<le> v" by simp
      from main_exec_returned [OF assms ExecReturned this] show ?thesis by simp
    qed
  qed
  then show "take 5 (trace_of (main P e0 argv envp)) =
      [Getpwnam (argv ! 1), CapngClear CAPNG_SELECT_BOTH,
       CapngUpdatev CAPNG_ADD grant_types grant_caps,
       CapngChangeId (pw_uid pw) (pw_gid pw) CAPNG_INIT_SUPP_GRP,
       Execvpe (argv ! 2) (drop 2 argv) envp]"
    and "filter is_exec (trace_of (main P e0 argv envp)) =
      [Execvpe (argv ! 2) (drop 2 argv) envp]"
    by simp_all
qed

text \<open>
  A run that stops early makes none of the later calls: without a passed root guard no
  capability call, without a successful grant no identity switch, without a successful
  identity switch no exec.
\<close>

lemma no_cap_mutation_before_guard:
  assumes "\<forall>pw. \<not> root_checked P argv pw"
  shows "filter is_cap_mutation (trace_of (main P e0 argv envp)) = []"
proof (cases rule: run_cases [where argv = argv and P = P and envp = envp])
  case usage
  from main_usage [OF this] show ?thesis by simp
next
  case lookup_failed
  from main_lookup_failed [OF this] show ?thesis by simp
next
  case (root pw)
  from main_root [OF this] show ?thesis by simp
next
  case (grant_failed pw)
  with assms show ?thesis by blast
next
  case (switch_failed pw)
  with assms show ?thesis by (auto simp: restricted_def)
next
  case (exec_failed pw v eff)
  with assms show ?thesis by (auto simp: restricted_def switched_def)
next
  case (exec_returned pw v eff)
  with assms show ?thesis by (auto simp: restricted_def switched_def)
next
  case (replaced pw)
  with assms show ?thesis by (auto simp: restricted_def switched_def)
qed

lemma no_id_switch_before_grant:
  assumes "\<forall>pw. \<not> restricted P argv pw"
  shows "filter is_id_switch (trace_of (main P e0 argv envp)) = []"
proof (cases rule: run_cases [where argv = argv and P = P and envp = envp])
  case usage
  from main_usage [OF this] show ?thesis by simp
next
  case lookup_failed
  from main_lookup_failed [OF this] show ?thesis by simp
next
  case (root pw)
  from main_root [OF this] show ?thesis by simp
next
  case (grant_failed pw)
  from main_grant_failed(1) [OF this] show ?thesis by simp
next
  case (switch_failed pw)
  with assms show ?thesis by blast
next
  case (exec_failed pw v eff)
  with assms show ?thesis by (auto simp: switched_def)
next
  case (exec_returned pw v eff)
  with assms show ?thesis by (auto simp: switched_def)
next
  case (replaced pw)
  with assms show ?thesis by (auto simp: switched_def)
qed

lemma no_exec_before_switch:
  assumes "\<forall>pw. \<not> switched P argv pw"
  shows "filter is_exec (trace_of (main P e0 argv envp)) = []"
proof (cases rule: run_cases [where argv = argv and P = P and envp = envp])
  case usage
  from main_usage [OF this] show ?thesis by simp
next
  case lookup_failed
  from main_lookup_failed [OF this] show ?thesis by simp
next
  case (root pw)
  from main_root [OF this] show ?thesis by simp
next
  case (grant_failed pw)
  from main_grant_failed(1) [OF this] show ?thesis by simp
next
  case (switch_failed pw)
  from main_switch_failed(1) [OF this] show ?thesis by simp
next
  case (exec_failed pw v eff)
  with assms show ?thesis by blast
next
  case (exec_returned pw v eff)
  with assms show ?thesis by blast
next
  case (replaced pw)
  with assms show ?thesis by blast
qed

text \<open>The platform calls of a run, by how far the invocation gets.\<close>

lemma steps_of_run:
  "steps_of (main P e0 argv envp) =
     (if \<not> validated argv then []
      else if \<forall>pw. \<not> root_checked P argv pw then [Lookup]
      else if \<forall>pw. \<not> restricted P argv pw then [Lookup, CapClear, CapGrant]
      else if \<forall>pw. \<not> switched P argv pw then [Lookup, CapClear, CapGrant, IdSwitch]
      else [Lookup, CapClear, CapGrant, IdSwitch, Exec])"
proof (cases rule: run_cases [where argv = argv and P = P and envp = envp])
  case usage
  from main_usage [OF this, of P e0 envp] usage show ?thesis
    by (simp add: steps_of_def map_filter_simps)
next
  case lookup_failed
  then have "\<forall>pw. \<not> root_checked P argv pw"
    by (simp add: root_checked_def resolved_def)
  with main_lookup_failed [OF lookup_failed, of e0 envp] lookup_failed show ?thesis
    by (simp add: steps_of_def map_filter_simps)
next
  case (root pw)
  then have "\<forall>pw'. \<not> root_checked P argv pw'"
    by (auto simp: root_checked_def resolved_def)
  with main_root [OF root, of e0 envp] root show ?thesis
    by (simp add: steps_of_def map_filter_simps resolved_def)
next
  case (grant_failed pw)
  then have "\<forall>pw'. \<not> restricted P argv pw'"
    by (simp add: restricted_def)
  with main_grant_failed(1) [OF grant_failed, of e0 envp] grant_failed show ?thesis
    by (auto simp: steps_of_def map_filter_simps root_checked_def resolved_def)
next
  case (switch_failed pw)
  then have "\<forall>pw'. \<not> switched P argv pw'"
    by (auto simp: switched_def restricted_def root_checked_def resolved_def)
  with main_switch_failed(1) [OF switch_failed, of e0 envp] switch_failed show ?thesis
    by (auto simp: steps_of_def map_filter_simps restricted_def root_checked_def resolved_def)
next
  case (exec_failed pw v eff)
  with main_exec_failed [OF exec_failed, of e0] show ?thesis
    by (auto simp: steps_of_def map_filter_simps switched_def restricted_def root_checked_def
        resolved_def)
next
  case (exec_returned pw v eff)
  with main_exec_returned [OF exec_returned, of e0] show ?thesis
    by (auto simp: steps_of_def map_filter_simps switched_def restricted_def root_checked_def
        resolved_def)
next
  case (replaced pw)
  with main_replaced [OF replaced, of e0] show ?thesis
    by (auto simp: steps_of_def map_filter_simps switched_def restricted_def root_checked_def
        resolved_def)
qed

text \<open>A run that does not reach the exec exits with \<open>EXIT_FAILURE\<close>.\<close>

lemma failure_exit:
  assumes "\<forall>pw. \<not> switched P argv pw"
  shows "outcome_of (main P e0 argv envp) = Exited EXIT_FAILURE"
proof (cases rule: run_cases [where argv = argv and P = P and envp = envp])
  case usage
  from main_usage [OF this, of P e0 envp] show ?thesis by simp
next
  case lookup_failed
  from main_lookup_failed [OF this, of e0 envp] show ?thesis by simp
next
  case (root pw)
  from main_root [OF this, of e0 envp] show ?thesis by simp
next
  case (grant_failed pw)
  from main_grant_failed(2) [OF this, of e0 envp] show ?thesis .
next
  case (switch_failed pw)
  from main_switch_failed(2) [OF this, of e0 envp] show ?thesis .
next
  case (exec_failed pw v eff)
  with assms show ?thesis by blast
next
  case (exec_returned pw v eff)
  with assms show ?thesis by blast
next
  case (replaced pw)
  with assms show ?thesis by blast
qed

text \<open>
  What the libcap-ng calls leave in \<open>errno\<close>, and what \<open>errno\<close> held at entry, shows
  neither in the outcome nor in the trace.
\<close>

lemma with_errno_effects_same [simp]:
  "getpwnam (with_errno_effects c u w P) = getpwnam P"
  "execvpe (with_errno_effects c u w P) = execvpe P"
  "strerror (with_errno_effects c u w P) = strerror P"
  "resolved (with_errno_effects c u w P) argv pw = resolved P argv pw"
  "root_checked (with_errno_effects c u w P) argv pw = root_checked P argv pw"
  "grant_ret (with_errno_effects c u w P) = grant_ret P"
  "restricted (with_errno_effects c u w P) argv pw = restricted P argv pw"
  "switch_ret (with_errno_effects c u w P) pw = switch_ret P pw"
  "switched (with_errno_effects c u w P) argv pw = switched P argv pw"
  "exec_answer (with_errno_effects c u w P) argv envp = exec_answer P argv envp"
  "lookup_errno (with_errno_effects c u w P) argv = lookup_errno P argv"
  "perror_text (with_errno_effects c u w P) tag e = perror_text P tag e"
  by (simp_all add: with_errno_effects_def reach_defs perror_text_def)

lemma errno_effects_unobserved:
  "outcome_of (main (with_errno_effects c u w P) e0' argv envp) = outcome_of (main P e0 argv envp)
   \<and> trace_of (main (with_errno_effects c u w P) e0' argv envp) = trace_of (main P e0 argv envp)"
proof (cases rule: run_cases [where argv = argv and P = P and envp = envp])
  case usage
  from main_usage [OF this, of P e0 envp]
    main_usage [OF this, of "with_errno_effects c u w P" e0' envp]
  show ?thesis by simp
next
  case lookup_failed
  then have "validated argv"
    and "fst (getpwnam (with_errno_effects c u w P) (argv ! 1)) = None" by simp_all
  from main_lookup_failed [OF this, of e0' envp] main_lookup_failed [OF lookup_failed, of e0 envp]
  show ?thesis by simp
next
  case (root pw)
  then have "resolved (with_errno_effects c u w P) argv pw" by simp
  from main_root [OF this root(2), of e0' envp] main_root [OF root, of e0 envp]
  show ?thesis by simp
next
  case (grant_failed pw)
  then have "root_checked (with_errno_effects c u w P) argv pw"
    and "grant_ret (with_errno_effects c u w P) < 0" by simp_all
  from main_grant_failed [OF this, of e0' envp] main_grant_failed [OF grant_failed, of e0 envp]
  show ?thesis by simp
next
  case (switch_failed pw)
  then have "restricted (with_errno_effects c u w P) argv pw"
    and "switch_ret (with_errno_effects c u w P) pw < 0" by simp_all
  from main_switch_failed [OF this, of e0' envp] main_switch_failed [OF switch_failed, of e0 envp]
  show ?thesis by simp
next
  case (exec_failed pw v eff)
  then have "switched (with_errno_effects c u w P) argv pw"
    and "exec_answer (with_errno_effects c u w P) argv envp = ExecReturned v eff" by simp_all
  from main_exec_failed [OF this exec_failed(3), of e0'] main_exec_failed [OF exec_failed, of e0]
  show ?thesis by simp
next
  case (exec_returned pw v eff)
  then have "switched (with_errno_effects c u w P) argv pw"
    and "exec_answer (with_errno_effects c u w P) argv envp = ExecReturned v eff" by simp_all
  from main_exec_returned [OF this exec_returned(3), of e0']
    main_exec_returned [OF exec_returned, of e0]
  show ?thesis by simp
next
  case (replaced pw)
  then have "switched (with_errno_effects c u w P) argv pw"
    and "exec_answer (with_errno_effects c u w P) argv envp = ExecReplaced" by simp_all
  from main_replaced [OF this, of e0'] main_replaced [OF replaced, of e0]
  show ?thesis by simp
qed

text \<open>The numeric codes printed in the scenarios.\<close>

lemma fmt_d_minus_one: "fmt_d (- 1) = ''-1''"
  by (simp add: fmt_d_def dec_digits_small)

lemma fmt_d_minus_thirteen: "fmt_d (- 13) = ''-13''"
  by (simp add: fmt_d_def dec_digits.simps [of 13] dec_digits_small)

text \<open>
  \<open>dec_digits\<close> writes the decimal digits of its argument, most significant first and
  without a leading zero.
\<close>

lemma digit_char_value:
  assumes "n < 10"
  shows "of_char (''0123456789'' ! n) - 48 = n"
    and "''0123456789'' ! n \<in> set ''0123456789''"
proof -
  from assms have "n \<in> {0, 1, 2, 3, 4, 5, 6, 7, 8, 9}"
    by auto
  then show "of_char (''0123456789'' ! n) - 48 = n"
    and "''0123456789'' ! n \<in> set ''0123456789''"
    by auto
qed

lemma dec_digits_value: "decimal_value (dec_digits n) = n"
proof (induction n rule: dec_digits.induct)
  case (1 n)
  show ?case
  proof (cases "n < 10")
    case True
    then show ?thesis by (simp add: dec_digits.simps [of n] digit_char_value)
  next
    case False
    then have "n mod 10 < 10" by simp
    with False "1.IH" show ?thesis
      by (simp add: dec_digits.simps [of n] digit_char_value(1))
  qed
qed

lemma dec_digits_digits: "set (dec_digits n) \<subseteq> set ''0123456789''"
proof (induction n rule: dec_digits.induct)
  case (1 n)
  show ?case
  proof (cases "n < 10")
    case True
    from digit_char_value(2) [OF True] True show ?thesis
      by (simp add: dec_digits.simps [of n])
  next
    case False
    have "n mod 10 < 10" by simp
    from digit_char_value(2) [OF this] False "1.IH" show ?thesis
      by (simp add: dec_digits.simps [of n])
  qed
qed

lemma dec_digits_nonempty: "dec_digits n \<noteq> []"
  by (simp add: dec_digits.simps [of n])

lemma dec_digits_leading: "0 < n \<Longrightarrow> hd (dec_digits n) \<noteq> CHR ''0''"
proof (induction n rule: dec_digits.induct)
  case (1 n)
  show ?case
  proof (cases "n < 10")
    case True
    with "1.prems" have "n \<in> {1, 2, 3, 4, 5, 6, 7, 8, 9}"
      by auto
    then show ?thesis by (auto simp: dec_digits.simps [of n])
  next
    case False
    then have "0 < n div 10" by simp
    with False "1.IH" have "hd (dec_digits (n div 10)) \<noteq> CHR ''0''" by simp
    with False show ?thesis
      by (simp add: dec_digits.simps [of n] dec_digits_nonempty)
  qed
qed

text \<open>What \<open>%d\<close> writes for a negative code.\<close>

lemma fmt_d_negative:
  assumes "i < 0"
  shows "\<exists>ds. fmt_d i = CHR ''-'' # ds \<and> ds \<noteq> [] \<and> set ds \<subseteq> set ''0123456789''
    \<and> hd ds \<noteq> CHR ''0'' \<and> int (decimal_value ds) = - i"
proof -
  from assms have pos: "0 < nat (- i)" by simp
  from assms have "fmt_d i = CHR ''-'' # dec_digits (nat (- i))" by (simp add: fmt_d_def)
  moreover have "int (decimal_value (dec_digits (nat (- i)))) = - i"
    using assms by (simp add: dec_digits_value)
  ultimately show ?thesis
    using dec_digits_nonempty [of "nat (- i)"] dec_digits_digits [of "nat (- i)"]
      dec_digits_leading [OF pos] by blast
qed


text \<open>Every exit with \<open>EXIT_FAILURE\<close> comes right after a line written to the standard error stream.\<close>

lemma failure_diagnostic:
  assumes "outcome_of (main P e0 argv envp) = Exited EXIT_FAILURE"
  shows "\<exists>msg. msg \<noteq> [] \<and> trace_of (main P e0 argv envp) \<noteq> []
    \<and> last (trace_of (main P e0 argv envp)) = Stderr (msg @ [CHR 0x0A])"
proof (cases rule: run_cases [where argv = argv and P = P and envp = envp])
  case usage
  from main_usage [OF this, of P e0 envp] show ?thesis
    by (intro exI [of _ "''usage: '' @ argv0 argv @ '' user cmd argv [argv]''"])
      (simp add: usage_text_def newline_def)
next
  case lookup_failed
  from main_lookup_failed [OF this, of e0 envp] show ?thesis
    by (intro exI [of _ "if lookup_errno P argv \<noteq> 0
          then ''getpanam: '' @ strerror P (lookup_errno P argv)
          else ''getpwnam: can not find user '' @ argv ! 1"])
      (simp add: not_found_text_def perror_text_def newline_def)
next
  case (root pw)
  from main_root [OF this, of e0 envp] show ?thesis
    by (intro exI [of _ "''can not run as root (uid = 0)''"]) (simp add: root_text_def newline_def)
next
  case (grant_failed pw)
  from main_grant_failed(1) [OF this, of e0 envp] show ?thesis
    by (intro exI [of _ "''capng_updatev() returns '' @ fmt_d (grant_ret P)"])
      (simp add: updatev_text_def newline_def)
next
  case (switch_failed pw)
  from main_switch_failed(1) [OF this, of e0 envp] show ?thesis
    by (intro exI [of _ "''capng_change_id() returns '' @ fmt_d (switch_ret P pw)"])
      (simp add: change_id_text_def newline_def)
next
  case (exec_failed pw v eff)
  from main_exec_failed [OF this, of e0] show ?thesis
    by (intro exI [of _ "''execvpe: '' @ strerror P (errno_after eff 0)"])
      (simp add: perror_text_def newline_def)
next
  case (exec_returned pw v eff)
  from main_exec_returned [OF this, of e0] assms show ?thesis
    by (simp add: EXIT_SUCCESS_def EXIT_FAILURE_def)
next
  case (replaced pw)
  from main_replaced [OF this, of e0] assms show ?thesis by simp
qed

section \<open>The claims\<close>

subsection \<open>Argument validation\<close>

text \<open>
  C6. An invocation with fewer than three tokens (program name, user name, command)
  writes the usage message to the standard error stream and exits with the non-zero
  status \<open>EXIT_FAILURE\<close>; it looks no identity up, mutates no capability and switches
  no identity: the usage message is all its trace holds. An invocation with three tokens
  or more passes the validation, and the lookup of the second token is performed: it is
  the first event of the trace.
\<close>

theorem C6_argument_validation:
  "(length argv < 3 \<longrightarrow>
      main P e0 argv envp =
        (Exited EXIT_FAILURE, \<lparr>errno = e0, trace = [Stderr (usage_text (argv0 argv))]\<rparr>)
      \<and> EXIT_FAILURE \<noteq> 0
      \<and> filter is_lookup (trace_of (main P e0 argv envp)) = []
      \<and> filter is_cap_mutation (trace_of (main P e0 argv envp)) = []
      \<and> filter is_id_switch (trace_of (main P e0 argv envp)) = [])
   \<and> (3 \<le> length argv \<longrightarrow>
      trace_of (main P e0 argv envp) \<noteq> []
      \<and> hd (trace_of (main P e0 argv envp)) = Getpwnam (argv ! 1))"
proof (intro conjI impI)
  assume short: "length argv < 3"
  then have nv: "\<not> validated argv" by (simp add: validated_def)
  show "main P e0 argv envp =
    (Exited EXIT_FAILURE, \<lparr>errno = e0, trace = [Stderr (usage_text (argv0 argv))]\<rparr>)"
    by (rule main_usage [OF nv])
  then show "filter is_lookup (trace_of (main P e0 argv envp)) = []"
    and "filter is_cap_mutation (trace_of (main P e0 argv envp)) = []"
    and "filter is_id_switch (trace_of (main P e0 argv envp)) = []"
    by simp_all
  show "EXIT_FAILURE \<noteq> 0" by (simp add: EXIT_FAILURE_def)
next
  assume "3 \<le> length argv"
  then have "validated argv" by (simp add: validated_def)
  from validated_trace_head [OF this]
  show "trace_of (main P e0 argv envp) \<noteq> []"
    and "hd (trace_of (main P e0 argv envp)) = Getpwnam (argv ! 1)" by simp_all
qed

theorem C6_argument_validation_witness:
  "length [''suid-wrapper'', ''alice''] < 3
   \<and> main scenario_platform 0 [''suid-wrapper'', ''alice''] [] =
       (Exited 1, \<lparr>errno = 0,
          trace = [Stderr (''usage: suid-wrapper user cmd argv [argv]'' @ [CHR 0x0A])]\<rparr>)
   \<and> 3 \<le> length [''suid-wrapper'', ''alice'', ''/bin/echo'', ''hello'']
   \<and> hd (trace_of (main scenario_platform 0
         [''suid-wrapper'', ''alice'', ''/bin/echo'', ''hello''] [''PATH=/bin''])) =
       Getpwnam ''alice''"
  using C6_argument_validation [of "[''suid-wrapper'', ''alice'']" scenario_platform 0 "[]"]
    C6_argument_validation [of "[''suid-wrapper'', ''alice'', ''/bin/echo'', ''hello'']"
      scenario_platform 0 "[''PATH=/bin'']"]
  by (simp add: text_defs EXIT_FAILURE_def)

subsection \<open>Root guard\<close>

text \<open>
  C1. When the user name resolves to an entry with user id 0, whatever the name is, the
  wrapper writes the message that root is not allowed and exits with the non-zero status
  \<open>EXIT_FAILURE\<close>. The lookup and the message are the whole trace: no capability is
  cleared or granted, no identity switch is attempted and nothing is executed.
\<close>

theorem C1_root_guard:
  assumes "3 \<le> length argv" and "fst (getpwnam P (argv ! 1)) = Some pw" and "pw_uid pw = 0"
  shows "outcome_of (main P e0 argv envp) = Exited EXIT_FAILURE
    \<and> EXIT_FAILURE \<noteq> 0
    \<and> trace_of (main P e0 argv envp) = [Getpwnam (argv ! 1), Stderr root_text]
    \<and> filter is_cap_mutation (trace_of (main P e0 argv envp)) = []
    \<and> filter is_id_switch (trace_of (main P e0 argv envp)) = []
    \<and> filter is_exec (trace_of (main P e0 argv envp)) = []"
proof -
  from assms have "resolved P argv pw" by (simp add: resolved_def validated_def)
  from main_root [OF this assms(3)] show ?thesis by (simp add: EXIT_FAILURE_def)
qed

theorem C1_root_guard_witness:
  "3 \<le> length [''suid-wrapper'', ''toor'', ''/bin/echo'', ''hi'']
   \<and> fst (getpwnam scenario_platform ([''suid-wrapper'', ''toor'', ''/bin/echo'', ''hi''] ! 1))
       = Some \<lparr>pw_uid = 0, pw_gid = 0\<rparr>
   \<and> ''toor'' \<noteq> ''root''
   \<and> outcome_of (main scenario_platform 0 [''suid-wrapper'', ''toor'', ''/bin/echo'', ''hi''] [])
       = Exited 1
   \<and> trace_of (main scenario_platform 0 [''suid-wrapper'', ''toor'', ''/bin/echo'', ''hi''] [])
       = [Getpwnam ''toor'', Stderr (''can not run as root (uid = 0)'' @ [CHR 0x0A])]"
proof -
  let ?argv = "[''suid-wrapper'', ''toor'', ''/bin/echo'', ''hi'']"
  have len: "3 \<le> length ?argv" by simp
  have db: "fst (getpwnam scenario_platform (?argv ! 1)) = Some \<lparr>pw_uid = 0, pw_gid = 0\<rparr>"
    by (simp add: scenario_defs)
  have uid: "pw_uid \<lparr>pw_uid = 0, pw_gid = 0\<rparr> = 0" by simp
  from C1_root_guard [OF len db uid, of 0 "[]"] len db show ?thesis
    by (simp add: text_defs EXIT_FAILURE_def)
qed

subsection \<open>Lookup failures\<close>

text \<open>
  C5. When the lookup returns no entry, what the call left in \<open>errno\<close> selects the
  diagnostic. When the call stored a code other than 0, the line written is
  \<open>getpanam: \<close> followed by the system's message for that code. When the call stored
  nothing, or 0, the line written is \<open>getpwnam: can not find user \<close> followed by the
  requested user name, the second token of the invocation. The two lines are never the
  same text. In both modes the exit status is \<open>EXIT_FAILURE\<close>, which is not 0, and no
  capability is mutated.
\<close>

theorem C5_lookup_failure:
  assumes "3 \<le> length argv" and "getpwnam P (argv ! 1) = (None, eff)"
  shows "outcome_of (main P e0 argv envp) = Exited EXIT_FAILURE
    \<and> EXIT_FAILURE \<noteq> 0
    \<and> (eff = None \<or> eff = Some 0 \<longrightarrow>
         trace_of (main P e0 argv envp) =
           [Getpwnam (argv ! 1),
            Stderr (''getpwnam: can not find user '' @ argv ! 1 @ [CHR 0x0A])])
    \<and> (\<forall>e. eff = Some e \<and> e \<noteq> 0 \<longrightarrow>
         trace_of (main P e0 argv envp) =
           [Getpwnam (argv ! 1), Stderr (''getpanam: '' @ strerror P e @ [CHR 0x0A])])
    \<and> (\<forall>e. ''getpanam: '' @ strerror P e @ [CHR 0x0A]
           \<noteq> ''getpwnam: can not find user '' @ argv ! 1 @ [CHR 0x0A])
    \<and> filter is_cap_mutation (trace_of (main P e0 argv envp)) = []
    \<and> filter is_id_switch (trace_of (main P e0 argv envp)) = []"
proof -
  let ?r = "main P e0 argv envp"
  from assms have v: "validated argv" and n: "fst (getpwnam P (argv ! 1)) = None"
    by (simp_all add: validated_def)
  from assms(2) have e: "lookup_errno P argv = errno_after eff 0"
    by (simp add: lookup_errno_def)
  note run = main_lookup_failed [OF v n, of e0 envp]
  from run have out: "outcome_of ?r = Exited EXIT_FAILURE" by simp
  have nz: "EXIT_FAILURE \<noteq> 0" by (simp add: EXIT_FAILURE_def)
  have nf: "eff = None \<or> eff = Some 0 \<longrightarrow>
      trace_of ?r = [Getpwnam (argv ! 1),
        Stderr (''getpwnam: can not find user '' @ argv ! 1 @ [CHR 0x0A])]"
  proof
    assume "eff = None \<or> eff = Some 0"
    then have "lookup_errno P argv = 0" using e by (auto simp: errno_after_def)
    with run show "trace_of ?r = [Getpwnam (argv ! 1),
        Stderr (''getpwnam: can not find user '' @ argv ! 1 @ [CHR 0x0A])]"
      by (simp add: not_found_text_def newline_def)
  qed
  have sys: "\<forall>e. eff = Some e \<and> e \<noteq> 0 \<longrightarrow>
      trace_of ?r = [Getpwnam (argv ! 1), Stderr (''getpanam: '' @ strerror P e @ [CHR 0x0A])]"
  proof (intro allI impI)
    fix e'
    assume "eff = Some e' \<and> e' \<noteq> 0"
    then have "lookup_errno P argv = e'" and "e' \<noteq> 0" using e by (auto simp: errno_after_def)
    with run show "trace_of ?r =
        [Getpwnam (argv ! 1), Stderr (''getpanam: '' @ strerror P e' @ [CHR 0x0A])]"
      by (simp add: perror_text_def newline_def)
  qed
  have diff: "\<forall>e. ''getpanam: '' @ strerror P e @ [CHR 0x0A]
      \<noteq> ''getpwnam: can not find user '' @ argv ! 1 @ [CHR 0x0A]"
    by simp
  from run have caps: "filter is_cap_mutation (trace_of ?r) = []"
    and sw: "filter is_id_switch (trace_of ?r) = []" by simp_all
  from out nz nf sys diff caps sw show ?thesis by blast
qed

theorem C5_lookup_failure_witness:
  "3 \<le> length argv_ghost
   \<and> getpwnam scenario_platform (argv_ghost ! 1) = (None, None)
   \<and> outcome_of (main scenario_platform 7 argv_ghost []) = Exited 1
   \<and> trace_of (main scenario_platform 7 argv_ghost []) =
       [Getpwnam ''ghost-user'',
        Stderr (''getpwnam: can not find user ghost-user'' @ [CHR 0x0A])]
   \<and> 3 \<le> length [''suid-wrapper'', ''mallory'', ''/bin/true'']
   \<and> getpwnam scenario_platform ([''suid-wrapper'', ''mallory'', ''/bin/true''] ! 1)
       = (None, None)
   \<and> trace_of (main scenario_platform 0 [''suid-wrapper'', ''mallory'', ''/bin/true''] []) =
       [Getpwnam ''mallory'', Stderr (''getpwnam: can not find user mallory'' @ [CHR 0x0A])]
   \<and> getpwnam (scenario_platform\<lparr>getpwnam := \<lambda>_. (None, Some 5)\<rparr>) (argv_echo ! 1)
       = (None, Some 5)
   \<and> outcome_of (main (scenario_platform\<lparr>getpwnam := \<lambda>_. (None, Some 5)\<rparr>) 0 argv_echo [])
       = Exited 1
   \<and> trace_of (main (scenario_platform\<lparr>getpwnam := \<lambda>_. (None, Some 5)\<rparr>) 0 argv_echo []) =
       [Getpwnam ''alice'', Stderr (''getpanam: Input/output error'' @ [CHR 0x0A])]"
proof -
  let ?mallory = "[''suid-wrapper'', ''mallory'', ''/bin/true'']"
  let ?P = "scenario_platform\<lparr>getpwnam := \<lambda>_. (None, Some 5)\<rparr>"
  have l1: "3 \<le> length argv_ghost" and l2: "3 \<le> length ?mallory"
    and l3: "3 \<le> length argv_echo"
    by (simp_all add: scenario_defs)
  have d1: "getpwnam scenario_platform (argv_ghost ! 1) = (None, None)"
    and d2: "getpwnam scenario_platform (?mallory ! 1) = (None, None)"
    and d3: "getpwnam ?P (argv_echo ! 1) = (None, Some 5)"
    by (simp_all add: scenario_defs)
  have five: "(5 :: int) \<noteq> 0" by simp
  from C5_lookup_failure [OF l1 d1, of 7 "[]"]
  have c1: "outcome_of (main scenario_platform 7 argv_ghost []) = Exited EXIT_FAILURE"
    and t1: "trace_of (main scenario_platform 7 argv_ghost []) =
      [Getpwnam (argv_ghost ! 1),
       Stderr (''getpwnam: can not find user '' @ argv_ghost ! 1 @ [CHR 0x0A])]"
    by blast+
  from C5_lookup_failure [OF l2 d2, of 0 "[]"]
  have t2: "trace_of (main scenario_platform 0 ?mallory []) =
      [Getpwnam (?mallory ! 1),
       Stderr (''getpwnam: can not find user '' @ ?mallory ! 1 @ [CHR 0x0A])]"
    by blast
  from C5_lookup_failure [OF l3 d3, of 0 "[]"] five
  have c3: "outcome_of (main ?P 0 argv_echo []) = Exited EXIT_FAILURE"
    and t3: "trace_of (main ?P 0 argv_echo []) =
      [Getpwnam (argv_echo ! 1), Stderr (''getpanam: '' @ strerror ?P 5 @ [CHR 0x0A])]"
    by blast+
  have one: "EXIT_FAILURE = 1" by (simp add: EXIT_FAILURE_def)
  have g: "argv_ghost ! 1 = ''ghost-user''" and a: "argv_echo ! 1 = ''alice''"
    and s: "strerror ?P 5 = ''Input/output error''"
    by (simp_all add: scenario_defs)
  from l1 l2 d1 d2 d3 c1 t1 t2 c3 t3 show ?thesis
    unfolding one g a s by simp
qed

subsection \<open>Capability restrictor\<close>

text \<open>
  C3. The only capability calls the wrapper ever makes are, in this order,
  \<open>capng_clear(CAPNG_SELECT_BOTH)\<close>, which clears the traditional capability sets and
  the bounding set, and one \<open>capng_updatev\<close> that adds \<open>CAP_SETUID\<close> and \<open>CAP_SETGID\<close>,
  and nothing else, to the effective, permitted, inheritable and ambient sets. A run
  that passed the root guard makes both, right after the lookup. When the grant returns
  a negative code, the wrapper writes \<open>capng_updatev() returns \<close> followed by that code
  in decimal (a minus sign, then the digits of its absolute value without a leading
  zero), exits with the non-zero status \<open>EXIT_FAILURE\<close>, and never calls the identity
  switch nor the exec.
\<close>

theorem C3_capability_restrictor:
  "(filter is_cap_mutation (trace_of (main P e0 argv envp)) = []
      \<or> filter is_cap_mutation (trace_of (main P e0 argv envp)) =
          [CapngClear CAPNG_SELECT_BOTH,
           CapngUpdatev CAPNG_ADD
             {CAPNG_EFFECTIVE, CAPNG_PERMITTED, CAPNG_INHERITABLE, CAPNG_AMBIENT}
             [CAP_SETUID, CAP_SETGID]])
   \<and> (root_checked P argv pw \<longrightarrow>
        take 3 (trace_of (main P e0 argv envp)) =
          [Getpwnam (argv ! 1), CapngClear CAPNG_SELECT_BOTH,
           CapngUpdatev CAPNG_ADD
             {CAPNG_EFFECTIVE, CAPNG_PERMITTED, CAPNG_INHERITABLE, CAPNG_AMBIENT}
             [CAP_SETUID, CAP_SETGID]])
   \<and> (root_checked P argv pw \<and> grant_ret P < 0 \<longrightarrow>
        outcome_of (main P e0 argv envp) = Exited EXIT_FAILURE
        \<and> EXIT_FAILURE \<noteq> 0
        \<and> last (trace_of (main P e0 argv envp)) =
            Stderr (''capng_updatev() returns '' @ fmt_d (grant_ret P) @ [CHR 0x0A])
        \<and> (\<exists>ds. last (trace_of (main P e0 argv envp)) =
                   Stderr (''capng_updatev() returns -'' @ ds @ [CHR 0x0A])
              \<and> ds \<noteq> [] \<and> set ds \<subseteq> set ''0123456789'' \<and> hd ds \<noteq> CHR ''0''
              \<and> int (decimal_value ds) = - grant_ret P)
        \<and> length (trace_of (main P e0 argv envp)) = 4
        \<and> filter is_id_switch (trace_of (main P e0 argv envp)) = []
        \<and> filter is_exec (trace_of (main P e0 argv envp)) = [])"
proof (intro conjI impI)
  show "filter is_cap_mutation (trace_of (main P e0 argv envp)) = []
      \<or> filter is_cap_mutation (trace_of (main P e0 argv envp)) =
          [CapngClear CAPNG_SELECT_BOTH, CapngUpdatev CAPNG_ADD grant_types grant_caps]"
  proof (cases "\<exists>pw. root_checked P argv pw")
    case True
    then obtain pw' where "root_checked P argv pw'" ..
    from root_checked_trace(2) [OF this] show ?thesis by simp
  next
    case False
    then have "\<forall>pw. \<not> root_checked P argv pw" by simp
    from no_cap_mutation_before_guard [OF this] show ?thesis by simp
  qed
next
  assume "root_checked P argv pw"
  from root_checked_trace(1) [OF this]
  show "take 3 (trace_of (main P e0 argv envp)) =
    [Getpwnam (argv ! 1), CapngClear CAPNG_SELECT_BOTH,
     CapngUpdatev CAPNG_ADD grant_types grant_caps]" .
next
  assume a: "root_checked P argv pw \<and> grant_ret P < 0"
  then have rc: "root_checked P argv pw" and neg: "grant_ret P < 0" by simp_all
  note tr = main_grant_failed(1) [OF rc neg, of e0 envp]
  show "outcome_of (main P e0 argv envp) = Exited EXIT_FAILURE"
    by (rule main_grant_failed(2) [OF rc neg])
  show "EXIT_FAILURE \<noteq> 0" by (simp add: EXIT_FAILURE_def)
  from tr show shown: "last (trace_of (main P e0 argv envp)) =
      Stderr (''capng_updatev() returns '' @ fmt_d (grant_ret P) @ [CHR 0x0A])"
    by (simp add: updatev_text_def newline_def)
  from fmt_d_negative [OF neg] obtain ds where
    "fmt_d (grant_ret P) = CHR ''-'' # ds" and "ds \<noteq> []" and "set ds \<subseteq> set ''0123456789''"
    and "hd ds \<noteq> CHR ''0''" and "int (decimal_value ds) = - grant_ret P"
    by blast
  with shown show "\<exists>ds. last (trace_of (main P e0 argv envp)) =
        Stderr (''capng_updatev() returns -'' @ ds @ [CHR 0x0A])
      \<and> ds \<noteq> [] \<and> set ds \<subseteq> set ''0123456789'' \<and> hd ds \<noteq> CHR ''0''
      \<and> int (decimal_value ds) = - grant_ret P"
    by (intro exI [of _ ds]) simp
  from tr show "length (trace_of (main P e0 argv envp)) = 4" by simp
  from tr show "filter is_id_switch (trace_of (main P e0 argv envp)) = []" by simp
  from tr show "filter is_exec (trace_of (main P e0 argv envp)) = []" by simp
qed

theorem C3_capability_restrictor_witness:
  "root_checked grant_fails argv_echo alice
   \<and> grant_ret grant_fails < 0
   \<and> take 3 (trace_of (main grant_fails 0 argv_echo [])) =
       [Getpwnam ''alice'', CapngClear CAPNG_SELECT_BOTH,
        CapngUpdatev CAPNG_ADD
          {CAPNG_EFFECTIVE, CAPNG_PERMITTED, CAPNG_INHERITABLE, CAPNG_AMBIENT}
          [CAP_SETUID, CAP_SETGID]]
   \<and> outcome_of (main grant_fails 0 argv_echo []) = Exited 1
   \<and> last (trace_of (main grant_fails 0 argv_echo [])) =
       Stderr (''capng_updatev() returns -1'' @ [CHR 0x0A])
   \<and> filter is_id_switch (trace_of (main grant_fails 0 argv_echo [])) = []
   \<and> root_checked (scenario_platform\<lparr>capng_updatev := \<lambda>_ _ _. (- 13, None)\<rparr>) argv_echo alice
   \<and> grant_ret (scenario_platform\<lparr>capng_updatev := \<lambda>_ _ _. (- 13, None)\<rparr>) < 0
   \<and> last (trace_of (main (scenario_platform\<lparr>capng_updatev := \<lambda>_ _ _. (- 13, None)\<rparr>) 0
        argv_echo [])) =
       Stderr (''capng_updatev() returns -13'' @ [CHR 0x0A])"
proof -
  let ?Q = "scenario_platform\<lparr>capng_updatev := \<lambda>_ _ _. (- 13, None)\<rparr>"
  have rc: "root_checked grant_fails argv_echo alice" and rc': "root_checked ?Q argv_echo alice"
    by (simp_all add: reach_defs scenario_defs)
  have gr: "grant_ret grant_fails = - 1" and gr': "grant_ret ?Q = - 13"
    by (simp_all add: grant_ret_def scenario_defs)
  have a: "argv_echo ! 1 = ''alice''" by (simp add: scenario_defs)
  from C3_capability_restrictor [of grant_fails 0 argv_echo "[]" alice] rc gr
  have c1: "take 3 (trace_of (main grant_fails 0 argv_echo [])) =
      [Getpwnam (argv_echo ! 1), CapngClear CAPNG_SELECT_BOTH,
       CapngUpdatev CAPNG_ADD grant_types grant_caps]"
    and c2: "outcome_of (main grant_fails 0 argv_echo []) = Exited EXIT_FAILURE"
    and c3: "last (trace_of (main grant_fails 0 argv_echo [])) =
      Stderr (''capng_updatev() returns '' @ fmt_d (- 1) @ [CHR 0x0A])"
    and c4: "filter is_id_switch (trace_of (main grant_fails 0 argv_echo [])) = []"
    by simp_all
  from C3_capability_restrictor [of ?Q 0 argv_echo "[]" alice] rc' gr'
  have c5: "last (trace_of (main ?Q 0 argv_echo [])) =
      Stderr (''capng_updatev() returns '' @ fmt_d (- 13) @ [CHR 0x0A])"
    by simp
  have one: "EXIT_FAILURE = 1" by (simp add: EXIT_FAILURE_def)
  from rc rc' gr gr' c1 c2 c3 c4 c5 show ?thesis
    unfolding one a fmt_d_minus_one fmt_d_minus_thirteen by simp
qed

subsection \<open>Identity switcher\<close>

text \<open>
  C4. The identity switcher is to set the group id and the user id of the process to the
  resolved ones and to initialise the supplementary groups from the target user. The
  wrapper hands both ids to \<open>capng_change_id\<close>, whose parameters are of type \<open>int\<close> and
  whose documentation gives the value \<open>-1\<close> the meaning that the id is left as it is.
  The root guard rejects the user id 0 only, so an entry with the user id \<open>0xFFFFFFFF\<close>,
  which is \<open>-1\<close> as an \<open>int\<close>, gets through: for such an entry the wrapper restricts the
  capabilities, asks for an identity switch whose user id is \<open>-1\<close>, and executes the
  command. The run below is that of the code on such an entry.
\<close>

theorem C4_user_id_minus_one:
  "getpwnam minus_one_platform (argv_minus_one ! 1) = (Some minus_one_entry, None)
   \<and> pw_uid minus_one_entry \<noteq> 0
   \<and> sint (pw_uid minus_one_entry) = - 1
   \<and> main minus_one_platform 0 argv_minus_one [] =
       (Replaced,
        \<lparr>errno = 0,
         trace = [Getpwnam ''nfsnobody'', CapngClear CAPNG_SELECT_BOTH,
                  CapngUpdatev CAPNG_ADD
                    {CAPNG_EFFECTIVE, CAPNG_PERMITTED, CAPNG_INHERITABLE, CAPNG_AMBIENT}
                    [CAP_SETUID, CAP_SETGID],
                  CapngChangeId 0xFFFFFFFF 1000 CAPNG_INIT_SUPP_GRP,
                  Execvpe ''/bin/echo'' [''/bin/echo'', ''hello''] []]\<rparr>)"
proof -
  have db: "getpwnam minus_one_platform (argv_minus_one ! 1) = (Some minus_one_entry, None)"
    by (simp add: scenario_defs)
  have nz: "pw_uid minus_one_entry \<noteq> 0" and m1: "sint (pw_uid minus_one_entry) = - 1"
    by (simp_all add: scenario_defs)
  have sw: "switched minus_one_platform argv_minus_one minus_one_entry"
    using db nz by (simp add: reach_defs) (simp add: scenario_defs)
  have x: "exec_answer minus_one_platform argv_minus_one [] = ExecReplaced"
    by (simp add: exec_answer_def scenario_defs)
  from main_replaced [OF sw x, of 0] db nz m1 show ?thesis
    by (simp add: scenario_defs)
qed

subsection \<open>Exec launcher\<close>

text \<open>
  C7. After a successful identity switch the wrapper calls \<open>execvpe\<close>, the path-searching
  exec, exactly once, as the fifth event of the trace: the file is the third token of the
  invocation, the argument vector is the invocation from that token on (so the command
  is its own argument zero, followed by the command's arguments as given), and the
  environment is the one \<open>main\<close> received. Without a successful identity switch nothing
  is executed. When the image is replaced the run ends there. When \<open>execvpe\<close> returns a
  negative value, \<open>perror\<close> reports the error the call left in \<open>errno\<close> and the wrapper
  exits with the non-zero status \<open>EXIT_FAILURE\<close>.
\<close>

theorem C7_exec_launcher:
  "(switched P argv pw \<longrightarrow>
      filter is_exec (trace_of (main P e0 argv envp)) = [Execvpe (argv ! 2) (drop 2 argv) envp]
      \<and> trace_of (main P e0 argv envp) ! 4 = Execvpe (argv ! 2) (drop 2 argv) envp
      \<and> drop 2 argv = argv ! 2 # drop 3 argv)
   \<and> ((\<forall>pw'. \<not> switched P argv pw') \<longrightarrow>
        filter is_exec (trace_of (main P e0 argv envp)) = [])
   \<and> (switched P argv pw \<and> execvpe P (argv ! 2) (drop 2 argv) envp = ExecReplaced \<longrightarrow>
        outcome_of (main P e0 argv envp) = Replaced
        \<and> last (trace_of (main P e0 argv envp)) = Execvpe (argv ! 2) (drop 2 argv) envp)
   \<and> (switched P argv pw \<and> execvpe P (argv ! 2) (drop 2 argv) envp = ExecReturned v eff
        \<and> v < 0 \<longrightarrow>
        outcome_of (main P e0 argv envp) = Exited EXIT_FAILURE
        \<and> EXIT_FAILURE \<noteq> 0
        \<and> last (trace_of (main P e0 argv envp)) =
            Stderr (''execvpe: '' @ strerror P (errno_after eff 0) @ [CHR 0x0A])
        \<and> length (trace_of (main P e0 argv envp)) = 6)"
proof (intro conjI impI)
  assume s: "switched P argv pw"
  from switched_trace(2) [OF s]
  show "filter is_exec (trace_of (main P e0 argv envp)) = [Execvpe (argv ! 2) (drop 2 argv) envp]" .
  have "take 5 (trace_of (main P e0 argv envp)) ! 4 = trace_of (main P e0 argv envp) ! 4"
    by simp
  with switched_trace(1) [OF s, of e0 envp]
  show "trace_of (main P e0 argv envp) ! 4 = Execvpe (argv ! 2) (drop 2 argv) envp" by simp
  from s have "2 < length argv" by (simp add: reach_defs)
  then show "drop 2 argv = argv ! 2 # drop 3 argv"
    by (simp add: Cons_nth_drop_Suc numeral_3_eq_3 numeral_2_eq_2)
next
  assume "\<forall>pw'. \<not> switched P argv pw'"
  from no_exec_before_switch [OF this]
  show "filter is_exec (trace_of (main P e0 argv envp)) = []" .
next
  assume a: "switched P argv pw \<and> execvpe P (argv ! 2) (drop 2 argv) envp = ExecReplaced"
  then have s: "switched P argv pw" and x: "exec_answer P argv envp = ExecReplaced"
    by (simp_all add: exec_answer_def)
  from main_replaced [OF s x, of e0]
  show "outcome_of (main P e0 argv envp) = Replaced"
    and "last (trace_of (main P e0 argv envp)) = Execvpe (argv ! 2) (drop 2 argv) envp"
    by simp_all
next
  assume a: "switched P argv pw \<and> execvpe P (argv ! 2) (drop 2 argv) envp = ExecReturned v eff
    \<and> v < 0"
  then have s: "switched P argv pw" and x: "exec_answer P argv envp = ExecReturned v eff"
    and neg: "v < 0"
    by (simp_all add: exec_answer_def)
  note run = main_exec_failed [OF s x neg, of e0]
  from run show "outcome_of (main P e0 argv envp) = Exited EXIT_FAILURE" by simp
  show "EXIT_FAILURE \<noteq> 0" by (simp add: EXIT_FAILURE_def)
  from run show "last (trace_of (main P e0 argv envp)) =
      Stderr (''execvpe: '' @ strerror P (errno_after eff 0) @ [CHR 0x0A])"
    by (simp add: perror_text_def newline_def)
  from run show "length (trace_of (main P e0 argv envp)) = 6" by simp
qed

theorem C7_exec_launcher_witness:
  "switched scenario_platform [''suid-wrapper'', ''alice'', ''/bin/echo'', ''hello'']
      \<lparr>pw_uid = 1000, pw_gid = 1000\<rparr>
   \<and> execvpe scenario_platform ''/bin/echo'' [''/bin/echo'', ''hello''] [''HOME=/root'']
       = ExecReplaced
   \<and> filter is_exec (trace_of (main scenario_platform 0
        [''suid-wrapper'', ''alice'', ''/bin/echo'', ''hello''] [''HOME=/root''])) =
       [Execvpe ''/bin/echo'' [''/bin/echo'', ''hello''] [''HOME=/root'']]
   \<and> outcome_of (main scenario_platform 0
        [''suid-wrapper'', ''alice'', ''/bin/echo'', ''hello''] [''HOME=/root'']) = Replaced
   \<and> switched scenario_platform [''suid-wrapper'', ''alice'', ''/nonexistent/binary'']
      \<lparr>pw_uid = 1000, pw_gid = 1000\<rparr>
   \<and> execvpe scenario_platform ''/nonexistent/binary'' [''/nonexistent/binary''] []
       = ExecReturned (- 1) (Some 2)
   \<and> outcome_of (main scenario_platform 0
        [''suid-wrapper'', ''alice'', ''/nonexistent/binary''] []) = Exited 1
   \<and> last (trace_of (main scenario_platform 0
        [''suid-wrapper'', ''alice'', ''/nonexistent/binary''] [])) =
       Stderr (''execvpe: No such file or directory'' @ [CHR 0x0A])
   \<and> (\<forall>pw'. \<not> switched scenario_platform [''suid-wrapper'', ''root'', ''/bin/echo'', ''hi''] pw')
   \<and> filter is_exec (trace_of (main scenario_platform 0
        [''suid-wrapper'', ''root'', ''/bin/echo'', ''hi''] [])) = []"
proof -
  let ?echo = "[''suid-wrapper'', ''alice'', ''/bin/echo'', ''hello'']"
  let ?none = "[''suid-wrapper'', ''alice'', ''/nonexistent/binary'']"
  let ?root = "[''suid-wrapper'', ''root'', ''/bin/echo'', ''hi'']"
  let ?pw = "\<lparr>pw_uid = 1000, pw_gid = 1000\<rparr> :: passwd"
  have s1: "switched scenario_platform ?echo ?pw"
    and s2: "switched scenario_platform ?none ?pw"
    by (simp_all add: reach_defs scenario_defs)
  have x1: "execvpe scenario_platform (?echo ! 2) (drop 2 ?echo) [''HOME=/root'']
      = ExecReplaced"
    and x2: "execvpe scenario_platform (?none ! 2) (drop 2 ?none) []
      = ExecReturned (- 1) (Some 2)"
    by (simp_all add: scenario_defs)
  have nr: "\<forall>pw'. \<not> switched scenario_platform ?root pw'"
    by (simp add: reach_defs scenario_defs)
  from C7_exec_launcher [of scenario_platform ?echo ?pw 0 "[''HOME=/root'']"]
    C7_exec_launcher [of scenario_platform ?none ?pw 0 "[]" "- 1" "Some 2"]
    C7_exec_launcher [of scenario_platform ?root ?pw 0 "[]"]
    s1 s2 x1 x2 nr
  show ?thesis
    by (simp add: EXIT_FAILURE_def errno_after_def scenario_defs)
qed


subsection \<open>The root guard looks at the user id only\<close>

text \<open>
  C9. For every resolved entry with a user id other than 0, whatever its primary group
  id, the run goes on past the root guard: lookup, clear and grant are the first three
  events, none of them a diagnostic. When the grant succeeds the identity switch is
  called with the entry's ids; for an entry of the group 0 the group id passed is 0.
\<close>

theorem C9_guard_tests_uid_only:
  assumes "3 \<le> length argv" and "fst (getpwnam P (argv ! 1)) = Some pw" and "pw_uid pw \<noteq> 0"
  shows "take 3 (trace_of (main P e0 argv envp)) =
        [Getpwnam (argv ! 1), CapngClear CAPNG_SELECT_BOTH,
         CapngUpdatev CAPNG_ADD
           {CAPNG_EFFECTIVE, CAPNG_PERMITTED, CAPNG_INHERITABLE, CAPNG_AMBIENT}
           [CAP_SETUID, CAP_SETGID]]
    \<and> filter is_stderr (take 3 (trace_of (main P e0 argv envp))) = []
    \<and> (0 \<le> grant_ret P \<longrightarrow>
         trace_of (main P e0 argv envp) ! 3 =
           CapngChangeId (pw_uid pw) (pw_gid pw) CAPNG_INIT_SUPP_GRP)
    \<and> (0 \<le> grant_ret P \<and> pw_gid pw = 0 \<longrightarrow>
         filter is_id_switch (trace_of (main P e0 argv envp)) =
           [CapngChangeId (pw_uid pw) 0 CAPNG_INIT_SUPP_GRP])"
proof -
  from assms have rc: "root_checked P argv pw"
    by (simp add: root_checked_def resolved_def validated_def)
  note t3 = root_checked_trace(1) [OF rc, of e0 envp]
  have c: "0 \<le> grant_ret P \<longrightarrow>
      trace_of (main P e0 argv envp) ! 3 =
        CapngChangeId (pw_uid pw) (pw_gid pw) CAPNG_INIT_SUPP_GRP"
  proof
    assume "0 \<le> grant_ret P"
    with rc have r: "restricted P argv pw" by (simp add: restricted_def)
    have "take 4 (trace_of (main P e0 argv envp)) ! 3 = trace_of (main P e0 argv envp) ! 3"
      by simp
    with restricted_trace(1) [OF r, of e0 envp]
    show "trace_of (main P e0 argv envp) ! 3 =
      CapngChangeId (pw_uid pw) (pw_gid pw) CAPNG_INIT_SUPP_GRP" by simp
  qed
  have d: "0 \<le> grant_ret P \<and> pw_gid pw = 0 \<longrightarrow>
      filter is_id_switch (trace_of (main P e0 argv envp)) =
        [CapngChangeId (pw_uid pw) 0 CAPNG_INIT_SUPP_GRP]"
  proof
    assume a: "0 \<le> grant_ret P \<and> pw_gid pw = 0"
    with rc have r: "restricted P argv pw" by (simp add: restricted_def)
    from restricted_trace(2) [OF r, of e0 envp] a
    show "filter is_id_switch (trace_of (main P e0 argv envp)) =
      [CapngChangeId (pw_uid pw) 0 CAPNG_INIT_SUPP_GRP]" by simp
  qed
  from t3 c d show ?thesis by simp
qed

theorem C9_guard_tests_uid_only_witness:
  "3 \<le> length [''suid-wrapper'', ''operator'', ''/bin/echo'', ''hello'']
   \<and> fst (getpwnam scenario_platform
        ([''suid-wrapper'', ''operator'', ''/bin/echo'', ''hello''] ! 1)) =
       Some \<lparr>pw_uid = 11, pw_gid = 0\<rparr>
   \<and> pw_uid \<lparr>pw_uid = 11, pw_gid = 0\<rparr> \<noteq> 0
   \<and> pw_gid \<lparr>pw_uid = 11, pw_gid = 0\<rparr> = 0
   \<and> 0 \<le> grant_ret scenario_platform
   \<and> take 3 (trace_of (main scenario_platform 0
        [''suid-wrapper'', ''operator'', ''/bin/echo'', ''hello''] [])) =
       [Getpwnam ''operator'', CapngClear CAPNG_SELECT_BOTH,
        CapngUpdatev CAPNG_ADD
          {CAPNG_EFFECTIVE, CAPNG_PERMITTED, CAPNG_INHERITABLE, CAPNG_AMBIENT}
          [CAP_SETUID, CAP_SETGID]]
   \<and> filter is_id_switch (trace_of (main scenario_platform 0
        [''suid-wrapper'', ''operator'', ''/bin/echo'', ''hello''] [])) =
       [CapngChangeId 11 0 CAPNG_INIT_SUPP_GRP]"
proof -
  let ?argv = "[''suid-wrapper'', ''operator'', ''/bin/echo'', ''hello'']"
  let ?pw = "\<lparr>pw_uid = 11, pw_gid = 0\<rparr> :: passwd"
  have len: "3 \<le> length ?argv" by simp
  have db: "fst (getpwnam scenario_platform (?argv ! 1)) = Some ?pw"
    by (simp add: scenario_defs)
  have uid: "pw_uid ?pw \<noteq> 0" by simp
  have gr: "0 \<le> grant_ret scenario_platform"
    by (simp add: grant_ret_def scenario_defs)
  from C9_guard_tests_uid_only [OF len db uid, of 0 "[]"] len db gr show ?thesis
    by simp
qed

subsection \<open>The order of the steps\<close>

text \<open>
  C2. In every run the platform calls are an initial part of the sequence lookup,
  capability clear, capability grant, identity switch, exec: each is made at most once,
  none out of order, none again. The two tests that call nothing sit where the claim puts
  them: the lookup is made only for a validated invocation, and the capabilities are
  touched only after an entry was resolved and passed the root check. The identity
  switch is called only after the grant returned success, and the exec only after the
  identity switch returned success. A failure of any step ends the run with the non-zero
  status \<open>EXIT_FAILURE\<close>, the calls made being exactly those up to the failed step.
\<close>

theorem C2_strict_order:
  "prefix (steps_of (main P e0 argv envp)) [Lookup, CapClear, CapGrant, IdSwitch, Exec]
   \<and> (Lookup \<in> set (steps_of (main P e0 argv envp)) \<longrightarrow> validated argv)
   \<and> (CapClear \<in> set (steps_of (main P e0 argv envp)) \<longrightarrow> (\<exists>pw'. root_checked P argv pw'))
   \<and> (IdSwitch \<in> set (steps_of (main P e0 argv envp)) \<longrightarrow> (\<exists>pw'. restricted P argv pw'))
   \<and> (Exec \<in> set (steps_of (main P e0 argv envp)) \<longrightarrow> (\<exists>pw'. switched P argv pw'))
   \<and> (\<not> validated argv \<longrightarrow>
        steps_of (main P e0 argv envp) = []
        \<and> outcome_of (main P e0 argv envp) = Exited EXIT_FAILURE)
   \<and> (validated argv \<and> fst (getpwnam P (argv ! 1)) = None \<longrightarrow>
        steps_of (main P e0 argv envp) = [Lookup]
        \<and> outcome_of (main P e0 argv envp) = Exited EXIT_FAILURE)
   \<and> (resolved P argv pw \<and> pw_uid pw = 0 \<longrightarrow>
        steps_of (main P e0 argv envp) = [Lookup]
        \<and> outcome_of (main P e0 argv envp) = Exited EXIT_FAILURE)
   \<and> (root_checked P argv pw \<and> grant_ret P < 0 \<longrightarrow>
        steps_of (main P e0 argv envp) = [Lookup, CapClear, CapGrant]
        \<and> outcome_of (main P e0 argv envp) = Exited EXIT_FAILURE)
   \<and> (restricted P argv pw \<and> switch_ret P pw < 0 \<longrightarrow>
        steps_of (main P e0 argv envp) = [Lookup, CapClear, CapGrant, IdSwitch]
        \<and> outcome_of (main P e0 argv envp) = Exited EXIT_FAILURE)
   \<and> (switched P argv pw \<longrightarrow>
        steps_of (main P e0 argv envp) = [Lookup, CapClear, CapGrant, IdSwitch, Exec])
   \<and> (switched P argv pw \<and> execvpe P (argv ! 2) (drop 2 argv) envp = ExecReturned v eff
        \<and> v < 0 \<longrightarrow>
        outcome_of (main P e0 argv envp) = Exited EXIT_FAILURE)
   \<and> EXIT_FAILURE \<noteq> 0"
proof -
  let ?r = "main P e0 argv envp"
  note st = steps_of_run [of P e0 argv envp]
  have order: "prefix (steps_of ?r) [Lookup, CapClear, CapGrant, IdSwitch, Exec]"
    unfolding st by simp
  have m1: "Lookup \<in> set (steps_of ?r) \<longrightarrow> validated argv"
    unfolding st by simp
  have m2: "CapClear \<in> set (steps_of ?r) \<longrightarrow> (\<exists>pw'. root_checked P argv pw')"
    unfolding st by simp
  have m3: "IdSwitch \<in> set (steps_of ?r) \<longrightarrow> (\<exists>pw'. restricted P argv pw')"
    unfolding st by simp
  have m4: "Exec \<in> set (steps_of ?r) \<longrightarrow> (\<exists>pw'. switched P argv pw')"
    unfolding st by simp
  have f1: "\<not> validated argv \<longrightarrow>
      steps_of ?r = [] \<and> outcome_of ?r = Exited EXIT_FAILURE"
  proof
    assume nv: "\<not> validated argv"
    then have "\<forall>pw. \<not> switched P argv pw" by (simp add: reach_defs)
    from failure_exit(1) [OF this] nv show "steps_of ?r = [] \<and> outcome_of ?r = Exited EXIT_FAILURE"
      unfolding st by simp
  qed
  have f2: "validated argv \<and> fst (getpwnam P (argv ! 1)) = None \<longrightarrow>
      steps_of ?r = [Lookup] \<and> outcome_of ?r = Exited EXIT_FAILURE"
  proof
    assume a: "validated argv \<and> fst (getpwnam P (argv ! 1)) = None"
    then have n: "\<forall>pw. \<not> root_checked P argv pw" and "\<forall>pw. \<not> switched P argv pw"
      by (simp_all add: reach_defs)
    from failure_exit(1) [OF this(2)] n a
    show "steps_of ?r = [Lookup] \<and> outcome_of ?r = Exited EXIT_FAILURE"
      unfolding st by simp
  qed
  have f3: "resolved P argv pw \<and> pw_uid pw = 0 \<longrightarrow>
      steps_of ?r = [Lookup] \<and> outcome_of ?r = Exited EXIT_FAILURE"
  proof
    assume a: "resolved P argv pw \<and> pw_uid pw = 0"
    then have n: "\<forall>pw. \<not> root_checked P argv pw" and "\<forall>pw. \<not> switched P argv pw"
      and v: "validated argv"
      by (auto simp: reach_defs)
    from failure_exit(1) [OF this(2)] n v
    show "steps_of ?r = [Lookup] \<and> outcome_of ?r = Exited EXIT_FAILURE"
      unfolding st by simp
  qed
  have f4: "root_checked P argv pw \<and> grant_ret P < 0 \<longrightarrow>
      steps_of ?r = [Lookup, CapClear, CapGrant] \<and> outcome_of ?r = Exited EXIT_FAILURE"
  proof
    assume a: "root_checked P argv pw \<and> grant_ret P < 0"
    then have n: "\<forall>pw. \<not> restricted P argv pw" and "\<forall>pw. \<not> switched P argv pw"
      and v: "validated argv" and rc: "\<exists>pw. root_checked P argv pw"
      by (auto simp: reach_defs)
    from failure_exit(1) [OF this(2)] n v rc
    show "steps_of ?r = [Lookup, CapClear, CapGrant] \<and> outcome_of ?r = Exited EXIT_FAILURE"
      unfolding st by simp
  qed
  have f5: "restricted P argv pw \<and> switch_ret P pw < 0 \<longrightarrow>
      steps_of ?r = [Lookup, CapClear, CapGrant, IdSwitch]
      \<and> outcome_of ?r = Exited EXIT_FAILURE"
  proof
    assume a: "restricted P argv pw \<and> switch_ret P pw < 0"
    then have n: "\<forall>pw. \<not> switched P argv pw"
      and v: "validated argv" and rc: "\<exists>pw. root_checked P argv pw"
      and rs: "\<exists>pw. restricted P argv pw"
      by (auto simp: reach_defs)
    from failure_exit(1) [OF n] n v rc rs
    show "steps_of ?r = [Lookup, CapClear, CapGrant, IdSwitch]
      \<and> outcome_of ?r = Exited EXIT_FAILURE"
      unfolding st by simp
  qed
  have f6: "switched P argv pw \<longrightarrow>
      steps_of ?r = [Lookup, CapClear, CapGrant, IdSwitch, Exec]"
  proof
    assume a: "switched P argv pw"
    then have v: "validated argv" and rc: "\<exists>pw. root_checked P argv pw"
      and rs: "\<exists>pw. restricted P argv pw" and sw: "\<exists>pw. switched P argv pw"
      by (auto simp: reach_defs)
    then show "steps_of ?r = [Lookup, CapClear, CapGrant, IdSwitch, Exec]"
      unfolding st by simp
  qed
  have f7: "switched P argv pw \<and> execvpe P (argv ! 2) (drop 2 argv) envp = ExecReturned v eff
      \<and> v < 0 \<longrightarrow> outcome_of ?r = Exited EXIT_FAILURE"
  proof
    assume a: "switched P argv pw \<and> execvpe P (argv ! 2) (drop 2 argv) envp = ExecReturned v eff
      \<and> v < 0"
    then have s: "switched P argv pw" and x: "exec_answer P argv envp = ExecReturned v eff"
      and neg: "v < 0" by (simp_all add: exec_answer_def)
    from main_exec_failed [OF s x neg, of e0] show "outcome_of ?r = Exited EXIT_FAILURE"
      by simp
  qed
  have nz: "EXIT_FAILURE \<noteq> 0" by (simp add: EXIT_FAILURE_def)
  from order m1 m2 m3 m4 f1 f2 f3 f4 f5 f6 f7 nz show ?thesis by blast
qed


theorem C2_strict_order_witness:
  "\<not> validated argv_short
   \<and> steps_of (main scenario_platform 0 argv_short []) = []
   \<and> outcome_of (main scenario_platform 0 argv_short []) = Exited 1
   \<and> validated argv_ghost
   \<and> fst (getpwnam scenario_platform (argv_ghost ! 1)) = None
   \<and> steps_of (main scenario_platform 0 argv_ghost []) = [Lookup]
   \<and> outcome_of (main scenario_platform 0 argv_ghost []) = Exited 1
   \<and> resolved scenario_platform argv_root \<lparr>pw_uid = 0, pw_gid = 0\<rparr>
   \<and> steps_of (main scenario_platform 0 argv_root []) = [Lookup]
   \<and> outcome_of (main scenario_platform 0 argv_root []) = Exited 1
   \<and> root_checked grant_fails argv_echo alice
   \<and> grant_ret grant_fails < 0
   \<and> steps_of (main grant_fails 0 argv_echo []) = [Lookup, CapClear, CapGrant]
   \<and> outcome_of (main grant_fails 0 argv_echo []) = Exited 1
   \<and> restricted switch_fails argv_echo alice
   \<and> switch_ret switch_fails alice < 0
   \<and> steps_of (main switch_fails 0 argv_echo []) = [Lookup, CapClear, CapGrant, IdSwitch]
   \<and> outcome_of (main switch_fails 0 argv_echo []) = Exited 1
   \<and> switched scenario_platform argv_missing alice
   \<and> execvpe scenario_platform (argv_missing ! 2) (drop 2 argv_missing) []
       = ExecReturned (- 1) (Some 2)
   \<and> steps_of (main scenario_platform 0 argv_missing [])
       = [Lookup, CapClear, CapGrant, IdSwitch, Exec]
   \<and> Lookup \<in> set (steps_of (main scenario_platform 0 argv_missing []))
   \<and> CapClear \<in> set (steps_of (main scenario_platform 0 argv_missing []))
   \<and> IdSwitch \<in> set (steps_of (main scenario_platform 0 argv_missing []))
   \<and> Exec \<in> set (steps_of (main scenario_platform 0 argv_missing []))
   \<and> validated argv_missing
   \<and> (\<exists>pw'. switched scenario_platform argv_missing pw')
   \<and> outcome_of (main scenario_platform 0 argv_missing []) = Exited 1"
proof -
  let ?root = "\<lparr>pw_uid = 0, pw_gid = 0\<rparr> :: passwd"
  have h1: "\<not> validated argv_short"
    and h2: "validated argv_ghost \<and> fst (getpwnam scenario_platform (argv_ghost ! 1)) = None"
    and h3: "resolved scenario_platform argv_root ?root \<and> pw_uid ?root = 0"
    and h4: "root_checked grant_fails argv_echo alice \<and> grant_ret grant_fails < 0"
    and h5: "restricted switch_fails argv_echo alice \<and> switch_ret switch_fails alice < 0"
    and h6: "switched scenario_platform argv_missing alice"
    and h7: "execvpe scenario_platform (argv_missing ! 2) (drop 2 argv_missing) []
       = ExecReturned (- 1) (Some 2)"
    by (simp_all add: reach_defs scenario_defs)
  have v6: "validated argv_missing" by (simp add: reach_defs scenario_defs)
  from C2_strict_order [of scenario_platform 0 argv_short "[]"] h1
  have c1: "steps_of (main scenario_platform 0 argv_short []) = []
    \<and> outcome_of (main scenario_platform 0 argv_short []) = Exited EXIT_FAILURE"
    by blast
  from C2_strict_order [of scenario_platform 0 argv_ghost "[]"] h2
  have c2: "steps_of (main scenario_platform 0 argv_ghost []) = [Lookup]
    \<and> outcome_of (main scenario_platform 0 argv_ghost []) = Exited EXIT_FAILURE"
    by blast
  from C2_strict_order [of scenario_platform 0 argv_root "[]" ?root] h3
  have c3: "steps_of (main scenario_platform 0 argv_root []) = [Lookup]
    \<and> outcome_of (main scenario_platform 0 argv_root []) = Exited EXIT_FAILURE"
    by blast
  from C2_strict_order [of grant_fails 0 argv_echo "[]" alice] h4
  have c4: "steps_of (main grant_fails 0 argv_echo []) = [Lookup, CapClear, CapGrant]
    \<and> outcome_of (main grant_fails 0 argv_echo []) = Exited EXIT_FAILURE"
    by blast
  from C2_strict_order [of switch_fails 0 argv_echo "[]" alice] h5
  have c5: "steps_of (main switch_fails 0 argv_echo []) = [Lookup, CapClear, CapGrant, IdSwitch]
    \<and> outcome_of (main switch_fails 0 argv_echo []) = Exited EXIT_FAILURE"
    by blast
  have neg: "(- 1 :: int) < 0" by simp
  from C2_strict_order [of scenario_platform 0 argv_missing "[]" alice "- 1" "Some 2"] h6 h7 neg
  have c6: "steps_of (main scenario_platform 0 argv_missing [])
      = [Lookup, CapClear, CapGrant, IdSwitch, Exec]
    \<and> outcome_of (main scenario_platform 0 argv_missing []) = Exited EXIT_FAILURE"
    by blast
  have ex: "\<exists>pw'. switched scenario_platform argv_missing pw'" using h6 ..
  have one: "EXIT_FAILURE = 1" by (simp add: EXIT_FAILURE_def)
  from c1 c2 c3 c4 c5 c6 h1 h2 h3 h4 h5 h6 h7 v6 ex show ?thesis
    unfolding one by simp
qed

subsection \<open>Exit status and diagnostics\<close>

text \<open>
  C8. A run ends in one of three ways: with the non-zero status \<open>EXIT_FAILURE\<close>; with
  the image replaced, when there is no exit status of the wrapper to observe; or with the
  status 0. Whenever the status is \<open>EXIT_FAILURE\<close>, the last thing the wrapper did was to
  write a non-empty line to the standard error stream. Every failure path ends so, each
  with its own message: the usage line, naming the program, for too few arguments; the
  system's message or the user-not-found line for a lookup without entry; the root line
  for an entry of user id 0; the returned code, in decimal, for a grant or an identity
  switch that returns a negative value; the system's message for an exec that returns
  a negative value. The status 0 needs an \<open>execvpe\<close> that was reached and returned a
  non-negative value; on a platform whose \<open>execvpe\<close> returns only to report an error
  (a negative value), as an exec does, a run never ends with the status 0.
\<close>

theorem C8_exit_status:
  "EXIT_SUCCESS = 0 \<and> EXIT_FAILURE \<noteq> 0
   \<and> (outcome_of (main P e0 argv envp) = Exited EXIT_FAILURE
        \<or> outcome_of (main P e0 argv envp) = Replaced
        \<or> outcome_of (main P e0 argv envp) = Exited EXIT_SUCCESS)
   \<and> (outcome_of (main P e0 argv envp) = Exited EXIT_FAILURE \<longrightarrow>
        (\<exists>msg. msg \<noteq> [] \<and> trace_of (main P e0 argv envp) \<noteq> []
           \<and> last (trace_of (main P e0 argv envp)) = Stderr (msg @ [CHR 0x0A])))
   \<and> (\<not> validated argv \<longrightarrow>
        outcome_of (main P e0 argv envp) = Exited EXIT_FAILURE
        \<and> (\<exists>a. last (trace_of (main P e0 argv envp)) =
                  Stderr (''usage: '' @ a @ '' user cmd argv [argv]'' @ [CHR 0x0A])
             \<and> (argv \<noteq> [] \<longrightarrow> a = hd argv)))
   \<and> (validated argv
        \<and> (getpwnam P (argv ! 1) = (None, None) \<or> getpwnam P (argv ! 1) = (None, Some 0)) \<longrightarrow>
        outcome_of (main P e0 argv envp) = Exited EXIT_FAILURE
        \<and> last (trace_of (main P e0 argv envp)) =
            Stderr (''getpwnam: can not find user '' @ argv ! 1 @ [CHR 0x0A]))
   \<and> (validated argv \<and> getpwnam P (argv ! 1) = (None, Some e) \<and> e \<noteq> 0 \<longrightarrow>
        outcome_of (main P e0 argv envp) = Exited EXIT_FAILURE
        \<and> last (trace_of (main P e0 argv envp)) =
            Stderr (''getpanam: '' @ strerror P e @ [CHR 0x0A]))
   \<and> (resolved P argv pw \<and> pw_uid pw = 0 \<longrightarrow>
        outcome_of (main P e0 argv envp) = Exited EXIT_FAILURE
        \<and> last (trace_of (main P e0 argv envp)) =
            Stderr (''can not run as root (uid = 0)'' @ [CHR 0x0A]))
   \<and> (root_checked P argv pw \<and> grant_ret P < 0 \<longrightarrow>
        outcome_of (main P e0 argv envp) = Exited EXIT_FAILURE
        \<and> (\<exists>ds. last (trace_of (main P e0 argv envp)) =
                   Stderr (''capng_updatev() returns -'' @ ds @ [CHR 0x0A])
              \<and> ds \<noteq> [] \<and> set ds \<subseteq> set ''0123456789'' \<and> hd ds \<noteq> CHR ''0''
              \<and> int (decimal_value ds) = - grant_ret P))
   \<and> (restricted P argv pw \<and> switch_ret P pw < 0 \<longrightarrow>
        outcome_of (main P e0 argv envp) = Exited EXIT_FAILURE
        \<and> (\<exists>ds. last (trace_of (main P e0 argv envp)) =
                   Stderr (''capng_change_id() returns -'' @ ds @ [CHR 0x0A])
              \<and> ds \<noteq> [] \<and> set ds \<subseteq> set ''0123456789'' \<and> hd ds \<noteq> CHR ''0''
              \<and> int (decimal_value ds) = - switch_ret P pw))
   \<and> (switched P argv pw \<and> execvpe P (argv ! 2) (drop 2 argv) envp = ExecReturned v eff
        \<and> v < 0 \<longrightarrow>
        outcome_of (main P e0 argv envp) = Exited EXIT_FAILURE
        \<and> (eff = None \<longrightarrow>
             last (trace_of (main P e0 argv envp)) =
               Stderr (''execvpe: '' @ strerror P 0 @ [CHR 0x0A]))
        \<and> (\<forall>e'. eff = Some e' \<longrightarrow>
             last (trace_of (main P e0 argv envp)) =
               Stderr (''execvpe: '' @ strerror P e' @ [CHR 0x0A])))
   \<and> (switched P argv pw \<and> execvpe P (argv ! 2) (drop 2 argv) envp = ExecReplaced \<longrightarrow>
        outcome_of (main P e0 argv envp) = Replaced)
   \<and> (outcome_of (main P e0 argv envp) = Exited EXIT_SUCCESS \<longrightarrow>
        (\<exists>pw' v' eff'. switched P argv pw'
           \<and> execvpe P (argv ! 2) (drop 2 argv) envp = ExecReturned v' eff' \<and> 0 \<le> v'))
   \<and> ((\<forall>file args env v' eff'. execvpe P file args env = ExecReturned v' eff' \<longrightarrow> v' < 0) \<longrightarrow>
        outcome_of (main P e0 argv envp) = Exited EXIT_FAILURE
        \<or> outcome_of (main P e0 argv envp) = Replaced)"
proof -
  let ?r = "main P e0 argv envp"
  have codes: "EXIT_SUCCESS = 0 \<and> EXIT_FAILURE \<noteq> 0"
    by (simp add: EXIT_SUCCESS_def EXIT_FAILURE_def)
  have diag: "outcome_of ?r = Exited EXIT_FAILURE \<longrightarrow>
      (\<exists>msg. msg \<noteq> [] \<and> trace_of ?r \<noteq> [] \<and> last (trace_of ?r) = Stderr (msg @ [CHR 0x0A]))"
    using failure_diagnostic [of P e0 argv envp] by blast
  have f1: "\<not> validated argv \<longrightarrow>
      outcome_of ?r = Exited EXIT_FAILURE
      \<and> (\<exists>a. last (trace_of ?r) =
                Stderr (''usage: '' @ a @ '' user cmd argv [argv]'' @ [CHR 0x0A])
           \<and> (argv \<noteq> [] \<longrightarrow> a = hd argv))"
  proof
    assume nv: "\<not> validated argv"
    have "argv \<noteq> [] \<longrightarrow> argv0 argv = hd argv"
      by (cases argv) (simp_all add: argv0_def)
    with main_usage [OF nv, of P e0 envp]
    show "outcome_of ?r = Exited EXIT_FAILURE
      \<and> (\<exists>a. last (trace_of ?r) =
                Stderr (''usage: '' @ a @ '' user cmd argv [argv]'' @ [CHR 0x0A])
           \<and> (argv \<noteq> [] \<longrightarrow> a = hd argv))"
      by (intro conjI exI [of _ "argv0 argv"]) (simp_all add: usage_text_def newline_def)
  qed
  have f2: "validated argv
      \<and> (getpwnam P (argv ! 1) = (None, None) \<or> getpwnam P (argv ! 1) = (None, Some 0)) \<longrightarrow>
      outcome_of ?r = Exited EXIT_FAILURE
      \<and> last (trace_of ?r) = Stderr (''getpwnam: can not find user '' @ argv ! 1 @ [CHR 0x0A])"
  proof
    assume a: "validated argv
      \<and> (getpwnam P (argv ! 1) = (None, None) \<or> getpwnam P (argv ! 1) = (None, Some 0))"
    then have v: "validated argv" and n: "fst (getpwnam P (argv ! 1)) = None"
      and z: "lookup_errno P argv = 0"
      by (auto simp: lookup_errno_def errno_after_def)
    from main_lookup_failed [OF v n, of e0 envp] z
    show "outcome_of ?r = Exited EXIT_FAILURE
      \<and> last (trace_of ?r) = Stderr (''getpwnam: can not find user '' @ argv ! 1 @ [CHR 0x0A])"
      by (simp add: not_found_text_def newline_def)
  qed
  have f2': "validated argv \<and> getpwnam P (argv ! 1) = (None, Some e) \<and> e \<noteq> 0 \<longrightarrow>
      outcome_of ?r = Exited EXIT_FAILURE
      \<and> last (trace_of ?r) = Stderr (''getpanam: '' @ strerror P e @ [CHR 0x0A])"
  proof
    assume a: "validated argv \<and> getpwnam P (argv ! 1) = (None, Some e) \<and> e \<noteq> 0"
    then have v: "validated argv" and n: "fst (getpwnam P (argv ! 1)) = None"
      and z: "lookup_errno P argv = e" and ne: "e \<noteq> 0"
      by (auto simp: lookup_errno_def errno_after_def)
    from main_lookup_failed [OF v n, of e0 envp] z ne
    show "outcome_of ?r = Exited EXIT_FAILURE
      \<and> last (trace_of ?r) = Stderr (''getpanam: '' @ strerror P e @ [CHR 0x0A])"
      by (simp add: perror_text_def newline_def)
  qed
  have f3: "resolved P argv pw \<and> pw_uid pw = 0 \<longrightarrow>
      outcome_of ?r = Exited EXIT_FAILURE
      \<and> last (trace_of ?r) = Stderr (''can not run as root (uid = 0)'' @ [CHR 0x0A])"
  proof
    assume "resolved P argv pw \<and> pw_uid pw = 0"
    then have r: "resolved P argv pw" and z: "pw_uid pw = 0" by simp_all
    from main_root [OF r z, of e0 envp]
    show "outcome_of ?r = Exited EXIT_FAILURE
      \<and> last (trace_of ?r) = Stderr (''can not run as root (uid = 0)'' @ [CHR 0x0A])"
      by (simp add: root_text_def newline_def)
  qed
  have f4: "root_checked P argv pw \<and> grant_ret P < 0 \<longrightarrow>
      outcome_of ?r = Exited EXIT_FAILURE
      \<and> (\<exists>ds. last (trace_of ?r) = Stderr (''capng_updatev() returns -'' @ ds @ [CHR 0x0A])
            \<and> ds \<noteq> [] \<and> set ds \<subseteq> set ''0123456789'' \<and> hd ds \<noteq> CHR ''0''
            \<and> int (decimal_value ds) = - grant_ret P)"
  proof
    assume "root_checked P argv pw \<and> grant_ret P < 0"
    then have rc: "root_checked P argv pw" and neg: "grant_ret P < 0" by simp_all
    from fmt_d_negative [OF neg] obtain ds where
      d: "fmt_d (grant_ret P) = CHR ''-'' # ds" and p: "ds \<noteq> []"
        "set ds \<subseteq> set ''0123456789''" "hd ds \<noteq> CHR ''0''"
        "int (decimal_value ds) = - grant_ret P"
      by blast
    from main_grant_failed(1) [OF rc neg, of e0 envp] d
    have "last (trace_of ?r) = Stderr (''capng_updatev() returns -'' @ ds @ [CHR 0x0A])"
      by (simp add: updatev_text_def newline_def)
    with p main_grant_failed(2) [OF rc neg, of e0 envp]
    show "outcome_of ?r = Exited EXIT_FAILURE
      \<and> (\<exists>ds. last (trace_of ?r) = Stderr (''capng_updatev() returns -'' @ ds @ [CHR 0x0A])
            \<and> ds \<noteq> [] \<and> set ds \<subseteq> set ''0123456789'' \<and> hd ds \<noteq> CHR ''0''
            \<and> int (decimal_value ds) = - grant_ret P)"
      by blast
  qed
  have f5: "restricted P argv pw \<and> switch_ret P pw < 0 \<longrightarrow>
      outcome_of ?r = Exited EXIT_FAILURE
      \<and> (\<exists>ds. last (trace_of ?r) = Stderr (''capng_change_id() returns -'' @ ds @ [CHR 0x0A])
            \<and> ds \<noteq> [] \<and> set ds \<subseteq> set ''0123456789'' \<and> hd ds \<noteq> CHR ''0''
            \<and> int (decimal_value ds) = - switch_ret P pw)"
  proof
    assume "restricted P argv pw \<and> switch_ret P pw < 0"
    then have rs: "restricted P argv pw" and neg: "switch_ret P pw < 0" by simp_all
    from fmt_d_negative [OF neg] obtain ds where
      d: "fmt_d (switch_ret P pw) = CHR ''-'' # ds" and p: "ds \<noteq> []"
        "set ds \<subseteq> set ''0123456789''" "hd ds \<noteq> CHR ''0''"
        "int (decimal_value ds) = - switch_ret P pw"
      by blast
    from main_switch_failed(1) [OF rs neg, of e0 envp] d
    have "last (trace_of ?r) = Stderr (''capng_change_id() returns -'' @ ds @ [CHR 0x0A])"
      by (simp add: change_id_text_def newline_def)
    with p main_switch_failed(2) [OF rs neg, of e0 envp]
    show "outcome_of ?r = Exited EXIT_FAILURE
      \<and> (\<exists>ds. last (trace_of ?r) = Stderr (''capng_change_id() returns -'' @ ds @ [CHR 0x0A])
            \<and> ds \<noteq> [] \<and> set ds \<subseteq> set ''0123456789'' \<and> hd ds \<noteq> CHR ''0''
            \<and> int (decimal_value ds) = - switch_ret P pw)"
      by blast
  qed
  have f6: "switched P argv pw \<and> execvpe P (argv ! 2) (drop 2 argv) envp = ExecReturned v eff
      \<and> v < 0 \<longrightarrow>
      outcome_of ?r = Exited EXIT_FAILURE
      \<and> (eff = None \<longrightarrow>
           last (trace_of ?r) = Stderr (''execvpe: '' @ strerror P 0 @ [CHR 0x0A]))
      \<and> (\<forall>e'. eff = Some e' \<longrightarrow>
           last (trace_of ?r) = Stderr (''execvpe: '' @ strerror P e' @ [CHR 0x0A]))"
  proof
    assume "switched P argv pw \<and> execvpe P (argv ! 2) (drop 2 argv) envp = ExecReturned v eff
      \<and> v < 0"
    then have s: "switched P argv pw" and x: "exec_answer P argv envp = ExecReturned v eff"
      and neg: "v < 0" by (simp_all add: exec_answer_def)
    from main_exec_failed [OF s x neg, of e0]
    show "outcome_of ?r = Exited EXIT_FAILURE
      \<and> (eff = None \<longrightarrow>
           last (trace_of ?r) = Stderr (''execvpe: '' @ strerror P 0 @ [CHR 0x0A]))
      \<and> (\<forall>e'. eff = Some e' \<longrightarrow>
           last (trace_of ?r) = Stderr (''execvpe: '' @ strerror P e' @ [CHR 0x0A]))"
      by (simp add: perror_text_def newline_def errno_after_def)
  qed
  have g: "switched P argv pw \<and> execvpe P (argv ! 2) (drop 2 argv) envp = ExecReplaced \<longrightarrow>
      outcome_of ?r = Replaced"
  proof
    assume "switched P argv pw \<and> execvpe P (argv ! 2) (drop 2 argv) envp = ExecReplaced"
    then have s: "switched P argv pw" and x: "exec_answer P argv envp = ExecReplaced"
      by (simp_all add: exec_answer_def)
    from main_replaced [OF s x, of e0] show "outcome_of ?r = Replaced" by simp
  qed
  have shape: "outcome_of ?r = Exited EXIT_FAILURE \<or> outcome_of ?r = Replaced
      \<or> (outcome_of ?r = Exited EXIT_SUCCESS
          \<and> (\<exists>pw' v' eff'. switched P argv pw'
                \<and> execvpe P (argv ! 2) (drop 2 argv) envp = ExecReturned v' eff' \<and> 0 \<le> v'))"
  proof (cases "\<exists>pw'. switched P argv pw'")
    case False
    then have "\<forall>pw. \<not> switched P argv pw" by simp
    from failure_exit [OF this] show ?thesis by simp
  next
    case True
    then obtain pw' where s: "switched P argv pw'" ..
    show ?thesis
    proof (cases "exec_answer P argv envp")
      case ExecReplaced
      from main_replaced [OF s this, of e0] show ?thesis by simp
    next
      case (ExecReturned v' eff')
      show ?thesis
      proof (cases "v' < 0")
        case True
        from main_exec_failed [OF s ExecReturned this, of e0] show ?thesis by simp
      next
        case False
        then have nn: "0 \<le> v'" by simp
        from main_exec_returned [OF s ExecReturned nn, of e0]
        have "outcome_of ?r = Exited EXIT_SUCCESS" by simp
        moreover from ExecReturned
        have "execvpe P (argv ! 2) (drop 2 argv) envp = ExecReturned v' eff'"
          by (simp add: exec_answer_def)
        ultimately show ?thesis using s nn by blast
      qed
    qed
  qed
  have nf: "Exited EXIT_FAILURE \<noteq> Exited EXIT_SUCCESS"
    by (simp add: EXIT_SUCCESS_def EXIT_FAILURE_def)
  from shape have all3: "outcome_of ?r = Exited EXIT_FAILURE \<or> outcome_of ?r = Replaced
      \<or> outcome_of ?r = Exited EXIT_SUCCESS" by blast
  from shape nf have only0: "outcome_of ?r = Exited EXIT_SUCCESS \<longrightarrow>
      (\<exists>pw' v' eff'. switched P argv pw'
         \<and> execvpe P (argv ! 2) (drop 2 argv) envp = ExecReturned v' eff' \<and> 0 \<le> v')"
    by auto
  have contract: "(\<forall>file args env v' eff'.
        execvpe P file args env = ExecReturned v' eff' \<longrightarrow> v' < 0) \<longrightarrow>
      outcome_of ?r = Exited EXIT_FAILURE \<or> outcome_of ?r = Replaced"
  proof
    assume c: "\<forall>file args env v' eff'. execvpe P file args env = ExecReturned v' eff' \<longrightarrow> v' < 0"
    show "outcome_of ?r = Exited EXIT_FAILURE \<or> outcome_of ?r = Replaced"
    proof (rule ccontr)
      assume "\<not> (outcome_of ?r = Exited EXIT_FAILURE \<or> outcome_of ?r = Replaced)"
      with all3 have "outcome_of ?r = Exited EXIT_SUCCESS" by blast
      with only0 obtain v' eff' where
        "execvpe P (argv ! 2) (drop 2 argv) envp = ExecReturned v' eff'" and "0 \<le> v'"
        by blast
      with c show False by fastforce
    qed
  qed
  show ?thesis
    apply (intro conjI)
    using codes apply simp
    using codes apply simp
    using all3 apply assumption
    using diag apply assumption
    using f1 apply assumption
    using f2 apply assumption
    using f2' apply assumption
    using f3 apply assumption
    using f4 apply assumption
    using f5 apply assumption
    using f6 apply assumption
    using g apply assumption
    using only0 apply assumption
    using contract apply assumption
    done
qed


theorem C8_exit_status_witness:
  "\<not> validated argv_short
   \<and> outcome_of (main scenario_platform 0 argv_short []) = Exited 1
   \<and> last (trace_of (main scenario_platform 0 argv_short [])) =
       Stderr (''usage: suid-wrapper user cmd argv [argv]'' @ [CHR 0x0A])
   \<and> validated argv_ghost \<and> getpwnam scenario_platform (argv_ghost ! 1) = (None, None)
   \<and> outcome_of (main scenario_platform 0 argv_ghost []) = Exited 1
   \<and> last (trace_of (main scenario_platform 0 argv_ghost [])) =
       Stderr (''getpwnam: can not find user ghost-user'' @ [CHR 0x0A])
   \<and> getpwnam (scenario_platform\<lparr>getpwnam := \<lambda>_. (None, Some 5)\<rparr>) (argv_echo ! 1)
       = (None, Some 5)
   \<and> last (trace_of (main (scenario_platform\<lparr>getpwnam := \<lambda>_. (None, Some 5)\<rparr>) 0
        argv_echo [])) =
       Stderr (''getpanam: Input/output error'' @ [CHR 0x0A])
   \<and> resolved scenario_platform argv_root \<lparr>pw_uid = 0, pw_gid = 0\<rparr>
   \<and> outcome_of (main scenario_platform 0 argv_root []) = Exited 1
   \<and> last (trace_of (main scenario_platform 0 argv_root [])) =
       Stderr (''can not run as root (uid = 0)'' @ [CHR 0x0A])
   \<and> root_checked grant_fails argv_echo alice \<and> grant_ret grant_fails < 0
   \<and> outcome_of (main grant_fails 0 argv_echo []) = Exited 1
   \<and> (\<exists>ds. last (trace_of (main grant_fails 0 argv_echo [])) =
              Stderr (''capng_updatev() returns -'' @ ds @ [CHR 0x0A])
         \<and> ds \<noteq> [] \<and> hd ds \<noteq> CHR ''0'' \<and> int (decimal_value ds) = 1)
   \<and> restricted switch_fails argv_echo alice \<and> switch_ret switch_fails alice < 0
   \<and> outcome_of (main switch_fails 0 argv_echo []) = Exited 1
   \<and> (\<exists>ds. last (trace_of (main switch_fails 0 argv_echo [])) =
              Stderr (''capng_change_id() returns -'' @ ds @ [CHR 0x0A])
         \<and> ds \<noteq> [] \<and> hd ds \<noteq> CHR ''0'' \<and> int (decimal_value ds) = 7)
   \<and> switched scenario_platform argv_missing alice
   \<and> execvpe scenario_platform (argv_missing ! 2) (drop 2 argv_missing) []
       = ExecReturned (- 1) (Some 2)
   \<and> outcome_of (main scenario_platform 0 argv_missing []) = Exited 1
   \<and> last (trace_of (main scenario_platform 0 argv_missing [])) =
       Stderr (''execvpe: No such file or directory'' @ [CHR 0x0A])
   \<and> switched scenario_platform argv_echo alice
   \<and> execvpe scenario_platform (argv_echo ! 2) (drop 2 argv_echo) [] = ExecReplaced
   \<and> outcome_of (main scenario_platform 0 argv_echo []) = Replaced
   \<and> outcome_of (main exec_returns_zero 0 argv_echo []) = Exited EXIT_SUCCESS
   \<and> (\<exists>pw' v' eff'. switched exec_returns_zero argv_echo pw'
        \<and> execvpe exec_returns_zero (argv_echo ! 2) (drop 2 argv_echo) []
            = ExecReturned v' eff' \<and> 0 \<le> v')
   \<and> \<not> (\<exists>file args env v' eff'.
          execvpe scenario_platform file args env = ExecReturned v' eff' \<and> 0 \<le> v')"
proof -
  let ?root = "\<lparr>pw_uid = 0, pw_gid = 0\<rparr> :: passwd"
  let ?io = "scenario_platform\<lparr>getpwnam := \<lambda>_. (None, Some 5)\<rparr>"
  have h1: "\<not> validated argv_short"
    and h2: "validated argv_ghost" "getpwnam scenario_platform (argv_ghost ! 1) = (None, None)"
    and h2': "validated argv_echo" "getpwnam ?io (argv_echo ! 1) = (None, Some 5)"
    and h3: "resolved scenario_platform argv_root ?root \<and> pw_uid ?root = 0"
    and h4: "root_checked grant_fails argv_echo alice \<and> grant_ret grant_fails < 0"
    and h5: "restricted switch_fails argv_echo alice \<and> switch_ret switch_fails alice < 0"
    and h6: "switched scenario_platform argv_missing alice"
    and x6: "execvpe scenario_platform (argv_missing ! 2) (drop 2 argv_missing) []
       = ExecReturned (- 1) (Some 2)"
    and h7: "switched scenario_platform argv_echo alice"
    and x7: "execvpe scenario_platform (argv_echo ! 2) (drop 2 argv_echo) [] = ExecReplaced"
    and h8: "switched exec_returns_zero argv_echo alice"
    and x8: "exec_answer exec_returns_zero argv_echo [] = ExecReturned 0 None"
    by (simp_all add: reach_defs scenario_defs)
  have neg: "(- 1 :: int) < 0" and nn: "(0 :: int) \<le> 0" and five: "(5 :: int) \<noteq> 0" by simp_all
  have g4: "grant_ret grant_fails = - 1" and g5: "switch_ret switch_fails alice = - 7"
    by (simp_all add: reach_defs scenario_defs)
  have ne: "argv_short \<noteq> []" and hd: "hd argv_short = ''suid-wrapper''"
    and gh: "argv_ghost ! 1 = ''ghost-user''"
    and se: "strerror ?io 5 = ''Input/output error''"
      "strerror scenario_platform 2 = ''No such file or directory''"
    by (simp_all add: scenario_defs)
  have contract: "\<forall>file args env v' eff'.
      execvpe scenario_platform file args env = ExecReturned v' eff' \<longrightarrow> v' < 0"
    by (simp add: scenario_defs)
  then have contract': "\<not> (\<exists>file args env v' eff'.
      execvpe scenario_platform file args env = ExecReturned v' eff' \<and> 0 \<le> v')"
    by fastforce
  from main_exec_returned [OF h8 x8 nn, of 0]
  have o8: "outcome_of (main exec_returns_zero 0 argv_echo []) = Exited EXIT_SUCCESS" by simp
  from C8_exit_status [of scenario_platform 0 argv_short "[]"] h1 ne
  have c1: "outcome_of (main scenario_platform 0 argv_short []) = Exited EXIT_FAILURE"
    and "\<exists>a. last (trace_of (main scenario_platform 0 argv_short [])) =
          Stderr (''usage: '' @ a @ '' user cmd argv [argv]'' @ [CHR 0x0A])
        \<and> a = hd argv_short"
    by blast+
  then have t1: "last (trace_of (main scenario_platform 0 argv_short [])) =
      Stderr (''usage: suid-wrapper user cmd argv [argv]'' @ [CHR 0x0A])"
    unfolding hd by auto
  from C8_exit_status [of scenario_platform 0 argv_ghost "[]"] h2
  have c2: "outcome_of (main scenario_platform 0 argv_ghost []) = Exited EXIT_FAILURE"
    and t2: "last (trace_of (main scenario_platform 0 argv_ghost [])) =
      Stderr (''getpwnam: can not find user '' @ argv_ghost ! 1 @ [CHR 0x0A])"
    by blast+
  from C8_exit_status [of ?io 0 argv_echo "[]" 5] h2' five
  have t2': "last (trace_of (main ?io 0 argv_echo [])) =
      Stderr (''getpanam: '' @ strerror ?io 5 @ [CHR 0x0A])"
    by blast
  from C8_exit_status [of scenario_platform 0 argv_root "[]" _ ?root] h3
  have c3: "outcome_of (main scenario_platform 0 argv_root []) = Exited EXIT_FAILURE"
    and t3: "last (trace_of (main scenario_platform 0 argv_root [])) =
      Stderr (''can not run as root (uid = 0)'' @ [CHR 0x0A])"
    by blast+
  from C8_exit_status [of grant_fails 0 argv_echo "[]" _ alice] h4
  have c4: "outcome_of (main grant_fails 0 argv_echo []) = Exited EXIT_FAILURE"
    and "\<exists>ds. last (trace_of (main grant_fails 0 argv_echo [])) =
          Stderr (''capng_updatev() returns -'' @ ds @ [CHR 0x0A])
        \<and> ds \<noteq> [] \<and> set ds \<subseteq> set ''0123456789'' \<and> hd ds \<noteq> CHR ''0''
        \<and> int (decimal_value ds) = - grant_ret grant_fails"
    by blast+
  then have t4: "\<exists>ds. last (trace_of (main grant_fails 0 argv_echo [])) =
          Stderr (''capng_updatev() returns -'' @ ds @ [CHR 0x0A])
        \<and> ds \<noteq> [] \<and> hd ds \<noteq> CHR ''0'' \<and> int (decimal_value ds) = 1"
    unfolding g4 by auto
  from C8_exit_status [of switch_fails 0 argv_echo "[]" _ alice] h5
  have c5: "outcome_of (main switch_fails 0 argv_echo []) = Exited EXIT_FAILURE"
    and "\<exists>ds. last (trace_of (main switch_fails 0 argv_echo [])) =
          Stderr (''capng_change_id() returns -'' @ ds @ [CHR 0x0A])
        \<and> ds \<noteq> [] \<and> set ds \<subseteq> set ''0123456789'' \<and> hd ds \<noteq> CHR ''0''
        \<and> int (decimal_value ds) = - switch_ret switch_fails alice"
    by blast+
  then have t5: "\<exists>ds. last (trace_of (main switch_fails 0 argv_echo [])) =
          Stderr (''capng_change_id() returns -'' @ ds @ [CHR 0x0A])
        \<and> ds \<noteq> [] \<and> hd ds \<noteq> CHR ''0'' \<and> int (decimal_value ds) = 7"
    unfolding g5 by auto
  from C8_exit_status [of scenario_platform 0 argv_missing "[]" _ alice "- 1" "Some 2"] h6 x6
  have c6: "outcome_of (main scenario_platform 0 argv_missing []) = Exited EXIT_FAILURE"
    and t6: "last (trace_of (main scenario_platform 0 argv_missing [])) =
      Stderr (''execvpe: '' @ strerror scenario_platform 2 @ [CHR 0x0A])"
    by simp_all
  from C8_exit_status [of scenario_platform 0 argv_echo "[]" _ alice] h7 x7
  have c7: "outcome_of (main scenario_platform 0 argv_echo []) = Replaced" by blast
  from C8_exit_status [of exec_returns_zero 0 argv_echo "[]"] o8
  have c8: "\<exists>pw' v' eff'. switched exec_returns_zero argv_echo pw'
        \<and> execvpe exec_returns_zero (argv_echo ! 2) (drop 2 argv_echo) []
            = ExecReturned v' eff' \<and> 0 \<le> v'" by blast
  from C8_exit_status [of scenario_platform 0 argv_ghost "[]"] contract
  have c9: "outcome_of (main scenario_platform 0 argv_ghost []) = Exited EXIT_FAILURE
      \<or> outcome_of (main scenario_platform 0 argv_ghost []) = Replaced" by blast
  have one: "EXIT_FAILURE = 1" by (simp add: EXIT_FAILURE_def)
  note facts = h1 h2 h2'(2) h3 [THEN conjunct1] h4 h5 h6 x6 h7 x7 o8 contract'
    c1 [unfolded one] t1 c2 [unfolded one] t2 [unfolded gh] t2' [unfolded se]
    c3 [unfolded one] t3 c4 [unfolded one] t4 c5 [unfolded one] t5 c6 [unfolded one]
    t6 [unfolded se] c7 c8
  from facts show ?thesis by simp
qed

subsection \<open>\<open>errno\<close> is reset before the lookup and before the exec\<close>

text \<open>
  C10. The outcome and the trace of a run, diagnostics included, do not depend on the
  value \<open>errno\<close> held at entry, nor on what the libcap-ng calls left in it: \<open>errno\<close> is
  set to 0 just before \<open>getpwnam\<close> and just before \<open>execvpe\<close>. So a lookup without
  entry is classified by what \<open>getpwnam\<close> itself stored over that 0, and the message of
  a failed exec is the one of the error \<open>execvpe\<close> itself stored over that 0.
\<close>

theorem C10_errno_reset:
  "outcome_of (main (with_errno_effects c u w P) e0' argv envp) = outcome_of (main P e0 argv envp)
   \<and> trace_of (main (with_errno_effects c u w P) e0' argv envp) = trace_of (main P e0 argv envp)
   \<and> (validated argv \<and> getpwnam P (argv ! 1) = (None, eff) \<longrightarrow>
        last (trace_of (main P e0 argv envp)) =
          Stderr (if errno_after eff 0 \<noteq> 0
                  then perror_text P ''getpanam'' (errno_after eff 0)
                  else not_found_text (argv ! 1)))
   \<and> (switched P argv pw \<and> execvpe P (argv ! 2) (drop 2 argv) envp = ExecReturned v eff
        \<and> v < 0 \<longrightarrow>
        last (trace_of (main P e0 argv envp)) =
          Stderr (perror_text P ''execvpe'' (errno_after eff 0)))"
proof -
  have lookup: "validated argv \<and> getpwnam P (argv ! 1) = (None, eff) \<longrightarrow>
      last (trace_of (main P e0 argv envp)) =
        Stderr (if errno_after eff 0 \<noteq> 0
                then perror_text P ''getpanam'' (errno_after eff 0)
                else not_found_text (argv ! 1))"
  proof
    assume a: "validated argv \<and> getpwnam P (argv ! 1) = (None, eff)"
    then have v: "validated argv" and n: "fst (getpwnam P (argv ! 1)) = None"
      and e: "lookup_errno P argv = errno_after eff 0"
      by (simp_all add: lookup_errno_def)
    from main_lookup_failed [OF v n, of e0 envp] e
    show "last (trace_of (main P e0 argv envp)) =
        Stderr (if errno_after eff 0 \<noteq> 0
                then perror_text P ''getpanam'' (errno_after eff 0)
                else not_found_text (argv ! 1))"
      by simp
  qed
  have exec: "switched P argv pw \<and> execvpe P (argv ! 2) (drop 2 argv) envp = ExecReturned v eff
      \<and> v < 0 \<longrightarrow>
      last (trace_of (main P e0 argv envp)) =
        Stderr (perror_text P ''execvpe'' (errno_after eff 0))"
  proof
    assume "switched P argv pw \<and> execvpe P (argv ! 2) (drop 2 argv) envp = ExecReturned v eff
      \<and> v < 0"
    then have s: "switched P argv pw" and x: "exec_answer P argv envp = ExecReturned v eff"
      and neg: "v < 0" by (simp_all add: exec_answer_def)
    from main_exec_failed [OF s x neg, of e0]
    show "last (trace_of (main P e0 argv envp)) =
        Stderr (perror_text P ''execvpe'' (errno_after eff 0))" by simp
  qed
  from errno_effects_unobserved [of c u w P e0' argv envp e0] lookup exec
  show ?thesis by blast
qed

theorem C10_errno_reset_witness:
  "validated argv_ghost
   \<and> getpwnam scenario_platform (argv_ghost ! 1) = (None, None)
   \<and> last (trace_of (main scenario_platform 99 argv_ghost [])) =
       Stderr (''getpwnam: can not find user ghost-user'' @ [CHR 0x0A])
   \<and> switched scenario_platform argv_missing alice
   \<and> execvpe scenario_platform (argv_missing ! 2) (drop 2 argv_missing) []
       = ExecReturned (- 1) (Some 2)
   \<and> last (trace_of (main scenario_platform 0 argv_missing [])) =
       Stderr (''execvpe: No such file or directory'' @ [CHR 0x0A])
   \<and> last (trace_of (main
        (with_errno_effects (\<lambda>_. Some 22) (\<lambda>_ _ _. Some 1) (\<lambda>_ _ _. Some 13) scenario_platform)
        99 argv_missing [])) =
       Stderr (''execvpe: No such file or directory'' @ [CHR 0x0A])"
proof -
  let ?Q = "with_errno_effects (\<lambda>_. Some 22) (\<lambda>_ _ _. Some 1) (\<lambda>_ _ _. Some 13)
    scenario_platform"
  have h1: "validated argv_ghost"
    and h2: "getpwnam scenario_platform (argv_ghost ! 1) = (None, None)"
    and h3: "switched scenario_platform argv_missing alice"
    and h4: "execvpe scenario_platform (argv_missing ! 2) (drop 2 argv_missing) []
       = ExecReturned (- 1) (Some 2)"
    by (simp_all add: reach_defs scenario_defs)
  have neg: "(- 1 :: int) < 0" by simp
  from C10_errno_reset [of "\<lambda>_. None" "\<lambda>_ _ _. None" "\<lambda>_ _ _. None" scenario_platform 0
      argv_ghost "[]" 99 None] h1 h2
  have c1: "last (trace_of (main scenario_platform 99 argv_ghost [])) =
      Stderr (if errno_after None 0 \<noteq> 0
              then perror_text scenario_platform ''getpanam'' (errno_after None 0)
              else not_found_text (argv_ghost ! 1))"
    by blast
  from C10_errno_reset [of "\<lambda>_. Some 22" "\<lambda>_ _ _. Some 1" "\<lambda>_ _ _. Some 13" scenario_platform 99
      argv_missing "[]" 0 "Some 2" alice "- 1"] h3 h4 neg
  have c2: "last (trace_of (main scenario_platform 0 argv_missing [])) =
      Stderr (perror_text scenario_platform ''execvpe'' (errno_after (Some 2) 0))"
    and c3: "trace_of (main ?Q 99 argv_missing []) = trace_of (main scenario_platform 0 argv_missing [])"
    by blast+
  have t1: "(if errno_after None 0 \<noteq> 0
              then perror_text scenario_platform ''getpanam'' (errno_after None 0)
              else not_found_text (argv_ghost ! 1))
      = ''getpwnam: can not find user ghost-user'' @ [CHR 0x0A]"
    by (simp add: errno_after_def text_defs scenario_defs)
  have t2: "perror_text scenario_platform ''execvpe'' (errno_after (Some 2) 0)
      = ''execvpe: No such file or directory'' @ [CHR 0x0A]"
    by (simp add: errno_after_def text_defs scenario_defs)
  from c1 c2 c3 t1 t2 h1 h2 h3 h4 show ?thesis by simp
qed


end
